theory Spec2Isabelle
  imports Complex_Main
begin

section \<open>Farm analytics: data model\<close>

text \<open>
  The analysis functions of \<^verbatim>\<open>modsac_1.py\<close> work on pandas frames built from the
  arrays of the weather payload. A cell of a value column is a number or the missing
  value (JSON \<^verbatim>\<open>null\<close>, pandas NaN). A number is given by its exact value; the
  comparisons of the classifier with 40, 1 and 100 are exact on it.
\<close>

datatype cell = NaN | Val rat

text \<open>
  A frame has an index (\<open>nrows\<close> is its length) and named columns, in the order of
  the dict they were built from. pandas keeps every column as long as the index;
  \<open>wf_frame\<close> states it.
\<close>

record dataframe =
  nrows :: nat
  cols :: "(string \<times> cell list) list"

definition wf_frame :: "dataframe \<Rightarrow> bool" where
  "wf_frame df = list_all (\<lambda>(name, c). length c = nrows df) (cols df)"

text \<open>\<^verbatim>\<open>df.empty\<close>: one of the two axes has length zero.\<close>

definition df_empty :: "dataframe \<Rightarrow> bool" where
  "df_empty df = (nrows df = 0 \<or> cols df = [])"

text \<open>\<^verbatim>\<open>name in df.columns\<close> and \<^verbatim>\<open>df[name]\<close> (a missing column is \<open>None\<close>).\<close>

definition column :: "dataframe \<Rightarrow> string \<Rightarrow> cell list option" where
  "column df name = map_of (cols df) name"

text \<open>
  Elementwise comparison of a column with a number: a missing value compares false.
\<close>

fun cell_gt :: "cell \<Rightarrow> rat \<Rightarrow> bool" where
  "cell_gt NaN x = False"
| "cell_gt (Val v) x = (v > x)"

fun cell_lt :: "cell \<Rightarrow> rat \<Rightarrow> bool" where
  "cell_lt NaN x = False"
| "cell_lt (Val v) x = (v < x)"

definition series_gt :: "cell list \<Rightarrow> rat \<Rightarrow> bool list" where
  "series_gt s x = map (\<lambda>c. cell_gt c x) s"

definition series_lt :: "cell list \<Rightarrow> rat \<Rightarrow> bool list" where
  "series_lt s x = map (\<lambda>c. cell_lt c x) s"

text \<open>\<^verbatim>\<open>.sum()\<close> of a boolean series, then \<^verbatim>\<open>int(...)\<close>: true counts one.\<close>

definition bool_sum :: "bool list \<Rightarrow> int" where
  "bool_sum bs = sum_list (map (\<lambda>b. if b then 1 else 0) bs)"

section \<open>Extreme events\<close>

text \<open>The dict \<^verbatim>\<open>events\<close>: keys to integer counts.\<close>

type_synonym events = "string \<rightharpoonup> int"

definition no_events :: events where
  "no_events = [''heatwave_days'' \<mapsto> 0, ''drought_days'' \<mapsto> 0, ''flood_days'' \<mapsto> 0]"

text \<open>
  \<^verbatim>\<open>analyze_extremes(df)\<close>. The guard is read left to right:
  \<^verbatim>\<open>df is not None and not df.empty and "tmax" in df.columns and "rain" in df.columns\<close>.
\<close>

definition analyze_extremes :: "dataframe option \<Rightarrow> events" where
  "analyze_extremes df =
     (case df of
        None \<Rightarrow> no_events
      | Some d \<Rightarrow>
          if df_empty d then no_events
          else (case column d ''tmax'' of
                  None \<Rightarrow> no_events
                | Some tmax \<Rightarrow>
                    (case column d ''rain'' of
                       None \<Rightarrow> no_events
                     | Some rain \<Rightarrow>
                         [''heatwave_days'' \<mapsto> bool_sum (series_gt tmax 40),
                          ''drought_days'' \<mapsto> bool_sum (series_lt rain 1),
                          ''flood_days'' \<mapsto> bool_sum (series_gt rain 100)])))"

text \<open>
  The rows of a frame, by position, whose cell in the column \<open>c\<close> holds a number
  that satisfies \<open>P\<close>.
\<close>

definition rows_where :: "dataframe \<Rightarrow> cell list \<Rightarrow> (rat \<Rightarrow> bool) \<Rightarrow> nat list" where
  "rows_where df c P =
     filter (\<lambda>i. case c ! i of NaN \<Rightarrow> False | Val v \<Rightarrow> P v) [0..<nrows df]"

section \<open>Floats and column statistics\<close>

text \<open>
  A Python float: not-a-number, an infinity, or a finite double given by its exact
  value.
\<close>

datatype double = Nan | PosInf | NegInf | Finite rat

text \<open>The comparison \<^verbatim>\<open>a > b\<close> of two floats: false as soon as one of them is NaN.\<close>

fun dgt :: "double \<Rightarrow> double \<Rightarrow> bool" where
  "dgt Nan b = False"
| "dgt a Nan = False"
| "dgt NegInf b = False"
| "dgt PosInf PosInf = False"
| "dgt PosInf b = True"
| "dgt (Finite x) NegInf = True"
| "dgt (Finite x) PosInf = False"
| "dgt (Finite x) (Finite y) = (x > y)"

text \<open>
  \<^verbatim>\<open>Series.mean()\<close> and \<^verbatim>\<open>Series.sum()\<close> belong to pandas, not to this repository: the
  order in which they add, their rounding, and the columns on which they raise (an
  integer beyond the range of a float) are not modelled. They are parameters
  \<open>pd_mean\<close> and \<open>pd_sum\<close> of the functions below, each giving the float that the code
  prints or compares, or the exception raised.
\<close>

section \<open>JSON values and the Python built-ins applied to them\<close>

text \<open>
  The decoded flood payload. A JSON number is a Python int of any size or a float
  (\<^verbatim>\<open>json.loads\<close> also reads \<^verbatim>\<open>NaN\<close> and \<^verbatim>\<open>Infinity\<close>). \<open>JObj\<close> lists the items of
  a Python dict, whose keys are distinct.
\<close>

datatype json =
    JNull
  | JBool bool
  | JInt int
  | JFloat double
  | JStr string
  | JArr "json list"
  | JObj "(string \<times> json) list"

datatype error = KeyError | TypeError | ValueError | ZeroDivisionError | OverflowError

text \<open>\<^verbatim>\<open>v[key]\<close> with a string key: only a dict can be subscripted by a string.\<close>

fun py_getitem :: "json \<Rightarrow> string \<Rightarrow> error + json" where
  "py_getitem (JObj kvs) k = (case map_of kvs k of None \<Rightarrow> Inl KeyError | Some v \<Rightarrow> Inr v)"
| "py_getitem v k = Inl TypeError"

text \<open>
  Iteration, as \<^verbatim>\<open>sum\<close> and \<^verbatim>\<open>max\<close> do it: a list gives its elements, a string its
  characters, a dict its keys; anything else is not iterable.
\<close>

fun py_iter :: "json \<Rightarrow> error + json list" where
  "py_iter (JArr xs) = Inr xs"
| "py_iter (JStr s) = Inr (map (\<lambda>c. JStr [c]) s)"
| "py_iter (JObj kvs) = Inr (map (\<lambda>kv. JStr (fst kv)) kvs)"
| "py_iter v = Inl TypeError"

text \<open>A Python number: an int or a float. A bool is the int 0 or 1.\<close>

datatype pynum = PInt int | PFloat double

fun num_of :: "json \<Rightarrow> pynum option" where
  "num_of (JInt n) = Some (PInt n)"
| "num_of (JFloat d) = Some (PFloat d)"
| "num_of (JBool b) = Some (PInt (if b then 1 else 0))"
| "num_of v = None"

text \<open>The comparison \<^verbatim>\<open>a > b\<close> of two numbers is exact, also between an int and a float.\<close>

fun float_of :: "pynum \<Rightarrow> double" where
  "float_of (PInt n) = Finite (of_int n)"
| "float_of (PFloat d) = d"

definition py_gt :: "pynum \<Rightarrow> pynum \<Rightarrow> bool" where
  "py_gt a b = dgt (float_of a) (float_of b)"

text \<open>
  A number is turned into a float by rounding to the nearest double. Python raises
  OverflowError when the result is not finite: from the midpoint between the greatest
  double, \<open>2 ^ 1024 - 2 ^ 971\<close>, and \<open>2 ^ 1024\<close> on.
\<close>

definition float_range :: "rat \<Rightarrow> bool" where
  "float_range q = (\<bar>q\<bar> < 2 ^ 1024 - 2 ^ 970)"

text \<open>
  \<^verbatim>\<open>sum(v)\<close> starts from the int 0 and adds the elements in order. As long as only
  ints have come the sum is an exact int; from the first float on it is a float.
  Adding an int and a float turns the int into a float first, which may raise. The
  value of a float sum is not modelled.
\<close>

datatype acc = IntSum int | FloatSum

fun add_num :: "acc \<Rightarrow> pynum \<Rightarrow> error + acc" where
  "add_num (IntSum a) (PInt n) = Inr (IntSum (a + n))"
| "add_num (IntSum a) (PFloat d) =
     (if float_range (of_int a) then Inr FloatSum else Inl OverflowError)"
| "add_num FloatSum (PInt n) =
     (if float_range (of_int n) then Inr FloatSum else Inl OverflowError)"
| "add_num FloatSum (PFloat d) = Inr FloatSum"

fun sum_from :: "acc \<Rightarrow> json list \<Rightarrow> error + acc" where
  "sum_from a [] = Inr a"
| "sum_from a (x # xs) =
     (case num_of x of
        None \<Rightarrow> Inl TypeError
      | Some r \<Rightarrow> (case add_num a r of Inl e \<Rightarrow> Inl e | Inr a' \<Rightarrow> sum_from a' xs))"

definition py_sum :: "json \<Rightarrow> error + acc" where
  "py_sum v = (case py_iter v of Inl e \<Rightarrow> Inl e | Inr xs \<Rightarrow> sum_from (IntSum 0) xs)"

fun py_len :: "json \<Rightarrow> error + nat" where
  "py_len (JArr xs) = Inr (length xs)"
| "py_len (JStr s) = Inr (length s)"
| "py_len (JObj kvs) = Inr (length kvs)"
| "py_len v = Inl TypeError"

text \<open>
  \<^verbatim>\<open>total / n\<close>: the quotient of two ints is rounded once and raises OverflowError
  when it is beyond the range of a float; a float divided by a length never raises.
  The result is a float, whose value is not modelled.
\<close>

fun py_div :: "acc \<Rightarrow> nat \<Rightarrow> error + unit" where
  "py_div (IntSum a) n =
     (if n = 0 then Inl ZeroDivisionError
      else if float_range (of_int a / of_nat n) then Inr ()
      else Inl OverflowError)"
| "py_div FloatSum n = (if n = 0 then Inl ZeroDivisionError else Inr ())"

text \<open>
  \<^verbatim>\<open>max(v)\<close>: an empty sequence raises ValueError; the running maximum is the first
  element and is replaced by an element that compares greater. On a sequence with an
  element that is not a number either a comparison or the format that follows raises;
  \<open>py_sum\<close> has raised on every such sequence before \<open>py_max\<close> is reached
  (\<open>py_max_after_sum\<close> below).
\<close>

fun max_from :: "pynum \<Rightarrow> json list \<Rightarrow> error + pynum" where
  "max_from m [] = Inr m"
| "max_from m (x # xs) =
     (case num_of x of
        None \<Rightarrow> Inl TypeError
      | Some r \<Rightarrow> max_from (if py_gt r m then r else m) xs)"

definition py_max :: "json \<Rightarrow> error + pynum" where
  "py_max v =
     (case py_iter v of
        Inl e \<Rightarrow> Inl e
      | Inr [] \<Rightarrow> Inl ValueError
      | Inr (x # xs) \<Rightarrow>
          (case num_of x of None \<Rightarrow> Inl TypeError | Some r \<Rightarrow> max_from r xs))"

text \<open>
  The format \<^verbatim>\<open>:.1f\<close> turns an int into a float and raises OverflowError when it is
  too large; it prints every float, also NaN and the infinities.
\<close>

fun printable :: "pynum \<Rightarrow> bool" where
  "printable (PInt n) = float_range (of_int n)"
| "printable (PFloat d) = True"

section \<open>The report\<close>

text \<open>
  \<^verbatim>\<open>generate_report\<close> appends lines to a list and joins them with newlines. The model
  is the list before the join; each template of the source is one constructor, which
  carries the values the template formats (the rendering to one decimal is not
  modelled, nor is the value of the average discharge, a float sum). A newline at the
  end of a template is part of that line.

  \<^item> \<open>Title\<close>: Farmer Support Report; \<open>Region\<close>, \<open>Period\<close>: the two header lines;
  \<^item> \<open>HistoryHeading\<close>, \<open>HistoryAvgTemp\<close>, \<open>HistoryTotalRain\<close>: Weather Summary (History);
  \<^item> \<open>ForecastHeading\<close>, \<open>ForecastAvgTemp\<close>, \<open>ForecastRain\<close>: Forecast (Next 14 days);
  \<^item> \<open>ExtremesHeading\<close>, \<open>HeatwaveDays\<close>, \<open>DroughtDays\<close>, \<open>HeavyRainDays\<close>:
    Extreme Events Detected;
  \<^item> \<open>FloodHeading\<close>, \<open>AvgDischarge\<close>, \<open>MaxDischarge\<close>, the three risk messages and
    the empty line after them; \<open>FloodUnavailable\<close>: Flood Risk Report: Data unavailable;
  \<^item> \<open>CropRecommendation\<close>: Grow ... this season;
  \<^item> the three lines of advice.
\<close>

datatype line =
    Title
  | Region string
  | Period string string
  | HistoryHeading
  | HistoryAvgTemp double
  | HistoryTotalRain double
  | ForecastHeading
  | ForecastAvgTemp double
  | ForecastRain double
  | ExtremesHeading
  | HeatwaveDays int
  | DroughtDays int
  | HeavyRainDays int
  | FloodHeading
  | AvgDischarge
  | MaxDischarge pynum
  | HighFloodRisk
  | ModerateFloodRisk
  | NoFloodRisk
  | Blank
  | FloodUnavailable
  | CropRecommendation string
  | AdviceIrrigation
  | AdviceHeat
  | AdviceDrainage

definition header :: "string \<Rightarrow> string \<Rightarrow> string \<Rightarrow> line list" where
  "header region start_date end_date = [Title, Region region, Period start_date end_date]"

text \<open>
  Lines 98 to 101. \<^verbatim>\<open>weather_df['tmax']\<close> raises KeyError on a frame without that
  column, and \<^verbatim>\<open>mean\<close> and \<^verbatim>\<open>sum\<close> may raise; the function is then left without a
  report.
\<close>

definition history_section ::
  "(cell list \<Rightarrow> error + double) \<Rightarrow> (cell list \<Rightarrow> error + double) \<Rightarrow> dataframe option
     \<Rightarrow> error + line list" where
  "history_section pd_mean pd_sum weather_df =
     (case weather_df of
        None \<Rightarrow> Inr []
      | Some df \<Rightarrow>
          if df_empty df then Inr []
          else (case column df ''tmax'' of
                  None \<Rightarrow> Inl KeyError
                | Some tmax \<Rightarrow>
                    (case pd_mean tmax of
                       Inl e \<Rightarrow> Inl e
                     | Inr avg_temp \<Rightarrow>
                         (case column df ''rain'' of
                            None \<Rightarrow> Inl KeyError
                          | Some rain \<Rightarrow>
                              (case pd_sum rain of
                                 Inl e \<Rightarrow> Inl e
                               | Inr total_rain \<Rightarrow>
                                   Inr [HistoryHeading, HistoryAvgTemp avg_temp,
                                        HistoryTotalRain total_rain])))))"

text \<open>Lines 103 to 106.\<close>

definition forecast_section ::
  "(cell list \<Rightarrow> error + double) \<Rightarrow> (cell list \<Rightarrow> error + double) \<Rightarrow> dataframe option
     \<Rightarrow> error + line list" where
  "forecast_section pd_mean pd_sum forecast_df =
     (case forecast_df of
        None \<Rightarrow> Inr []
      | Some df \<Rightarrow>
          if df_empty df then Inr []
          else (case column df ''tmax'' of
                  None \<Rightarrow> Inl KeyError
                | Some tmax \<Rightarrow>
                    (case pd_mean tmax of
                       Inl e \<Rightarrow> Inl e
                     | Inr avg_temp \<Rightarrow>
                         (case column df ''rain'' of
                            None \<Rightarrow> Inl KeyError
                          | Some rain \<Rightarrow>
                              (case pd_sum rain of
                                 Inl e \<Rightarrow> Inl e
                               | Inr total_rain \<Rightarrow>
                                   Inr [ForecastHeading, ForecastAvgTemp avg_temp,
                                        ForecastRain total_rain])))))"

text \<open>\<^verbatim>\<open>extremes.get(key, 0)\<close>.\<close>

definition get_count :: "events \<Rightarrow> string \<Rightarrow> int" where
  "get_count extremes k = (case extremes k of None \<Rightarrow> 0 | Some n \<Rightarrow> n)"

text \<open>Lines 108 to 111.\<close>

definition extremes_section :: "events \<Rightarrow> line list" where
  "extremes_section extremes =
     [ExtremesHeading,
      HeatwaveDays (get_count extremes ''heatwave_days''),
      DroughtDays (get_count extremes ''drought_days''),
      HeavyRainDays (get_count extremes ''flood_days'')]"

text \<open>
  Lines 116 to 118, inside the \<^verbatim>\<open>try\<close>: the average discharge is computed (only
  whether it raises is modelled) and the maximum discharge is returned.
\<close>

definition discharge_stats :: "json \<Rightarrow> error + pynum" where
  "discharge_stats daily =
     (case py_getitem daily ''river_discharge'' of
        Inl e \<Rightarrow> Inl e
      | Inr discharge_vals \<Rightarrow>
          (case py_sum discharge_vals of
             Inl e \<Rightarrow> Inl e
           | Inr total_discharge \<Rightarrow>
               (case py_len discharge_vals of
                  Inl e \<Rightarrow> Inl e
                | Inr n \<Rightarrow>
                    (case py_div total_discharge n of
                       Inl e \<Rightarrow> Inl e
                     | Inr avg_discharge \<Rightarrow> py_max discharge_vals))))"

text \<open>Lines 122 to 127.\<close>

definition risk_message :: "pynum \<Rightarrow> line" where
  "risk_message max_discharge =
     (if py_gt max_discharge (PInt 5000) then HighFloodRisk
      else if py_gt max_discharge (PInt 2000) then ModerateFloodRisk
      else NoFloodRisk)"

text \<open>
  Lines 114 to 130. \<open>flood_data\<close> is \<open>None\<close> or a dict; the guard is
  \<^verbatim>\<open>flood_data and "daily" in flood_data\<close>. Every exception of the \<^verbatim>\<open>try\<close> block
  ends in the line of the handler. When it is line 121 that raises (the maximum is an
  int too large for the format), lines 119 and 120 have already appended the heading
  and the average.
\<close>

definition flood_section :: "(string \<times> json) list option \<Rightarrow> line list" where
  "flood_section flood_data =
     (case flood_data of
        None \<Rightarrow> []
      | Some kvs \<Rightarrow>
          if kvs = [] then []
          else (case map_of kvs ''daily'' of
                  None \<Rightarrow> []
                | Some daily \<Rightarrow>
                    (case discharge_stats daily of
                       Inl e \<Rightarrow> [FloodUnavailable]
                     | Inr max_discharge \<Rightarrow>
                         if printable max_discharge
                         then [FloodHeading, AvgDischarge, MaxDischarge max_discharge,
                               risk_message max_discharge, Blank]
                         else [FloodHeading, AvgDischarge, FloodUnavailable])))"

text \<open>
  Lines 132 to 137. \<^verbatim>\<open>and\<close> evaluates its right operand only when the left one is
  true, so the column tmax is read only then. A mean that is NaN compares false.
\<close>

definition crop_section ::
  "(cell list \<Rightarrow> error + double) \<Rightarrow> dataframe option \<Rightarrow> error + line list" where
  "crop_section pd_mean weather_df =
     (case weather_df of
        None \<Rightarrow> Inr []
      | Some df \<Rightarrow>
          if df_empty df then Inr []
          else (case column df ''rain'' of
                  None \<Rightarrow> Inl KeyError
                | Some rain \<Rightarrow>
                    (case pd_mean rain of
                       Inl e \<Rightarrow> Inl e
                     | Inr mean_rain \<Rightarrow>
                         if dgt mean_rain (Finite 5)
                         then (case column df ''tmax'' of
                                 None \<Rightarrow> Inl KeyError
                               | Some tmax \<Rightarrow>
                                   (case pd_mean tmax of
                                      Inl e \<Rightarrow> Inl e
                                    | Inr mean_tmax \<Rightarrow>
                                        if dgt mean_tmax (Finite 25)
                                        then Inr [CropRecommendation ''Rice'']
                                        else Inr [CropRecommendation ''Wheat'']))
                         else Inr [CropRecommendation ''Wheat''])))"

text \<open>Lines 140 to 145.\<close>

definition advice_section :: "events \<Rightarrow> line list" where
  "advice_section extremes =
     (if get_count extremes ''drought_days'' > 10 then [AdviceIrrigation] else [])
     @ (if get_count extremes ''heatwave_days'' > 3 then [AdviceHeat] else [])
     @ (if get_count extremes ''flood_days'' > 2 then [AdviceDrainage] else [])"

definition generate_report ::
  "(cell list \<Rightarrow> error + double) \<Rightarrow> (cell list \<Rightarrow> error + double)
     \<Rightarrow> string \<Rightarrow> string \<Rightarrow> string \<Rightarrow> dataframe option \<Rightarrow> dataframe option \<Rightarrow> events
     \<Rightarrow> (string \<times> json) list option \<Rightarrow> error + line list" where
  "generate_report pd_mean pd_sum region start_date end_date weather_df forecast_df
       extremes flood_data =
     (case history_section pd_mean pd_sum weather_df of
        Inl e \<Rightarrow> Inl e
      | Inr history \<Rightarrow>
          (case forecast_section pd_mean pd_sum forecast_df of
             Inl e \<Rightarrow> Inl e
           | Inr forecast \<Rightarrow>
               (case crop_section pd_mean weather_df of
                  Inl e \<Rightarrow> Inl e
                | Inr crop \<Rightarrow>
                    Inr (header region start_date end_date @ history @ forecast
                         @ extremes_section extremes @ flood_section flood_data
                         @ crop @ advice_section extremes))))"

section \<open>From the weather payload to the frame\<close>

text \<open>
  Lines 183 to 191 (and 222 to 230 for the forecast). The payload is \<open>None\<close> or a
  dict. A value of the dict is an object of arrays, of which the model keeps the four
  arrays the code reads (\<open>None\<close> where the key is missing), or anything that is not an
  object (\<open>Leaf\<close>), which cannot be subscripted by a string. The array under
  \<^verbatim>\<open>time\<close> holds strings, the other three numbers or \<^verbatim>\<open>null\<close>.
\<close>

record daily =
  time :: "string list option"
  temperature_2m_max :: "cell list option"
  temperature_2m_min :: "cell list option"
  precipitation_sum :: "cell list option"

datatype entry = Arrays daily | Leaf

text \<open>\<^verbatim>\<open>weather_data["daily"]\<close> and \<^verbatim>\<open>...[field]\<close>.\<close>

definition get_daily :: "(string \<times> entry) list \<Rightarrow> error + entry" where
  "get_daily weather_data =
     (case map_of weather_data ''daily'' of None \<Rightarrow> Inl KeyError | Some v \<Rightarrow> Inr v)"

definition get_field :: "(daily \<Rightarrow> 'a option) \<Rightarrow> (string \<times> entry) list \<Rightarrow> error + 'a" where
  "get_field field weather_data =
     (case get_daily weather_data of
        Inl e \<Rightarrow> Inl e
      | Inr Leaf \<Rightarrow> Inl TypeError
      | Inr (Arrays d) \<Rightarrow> (case field d of None \<Rightarrow> Inl KeyError | Some a \<Rightarrow> Inr a))"

text \<open>
  \<^verbatim>\<open>pd.DataFrame({...})\<close> raises ValueError unless all arrays have the same length;
  \<^verbatim>\<open>pd.to_datetime\<close> then reads every date and raises ValueError on a string it
  cannot read. \<open>to_datetime\<close>, the reading of one date as a time stamp, is a
  parameter.
\<close>

definition make_frame ::
  "(string \<Rightarrow> rat option) \<Rightarrow> string list \<Rightarrow> cell list \<Rightarrow> cell list \<Rightarrow> cell list
     \<Rightarrow> error + dataframe" where
  "make_frame to_datetime dates tmax tmin rain =
     (if length tmax = length dates \<and> length tmin = length dates
         \<and> length rain = length dates
      then (case those (map to_datetime dates) of
              None \<Rightarrow> Inl ValueError
            | Some stamps \<Rightarrow>
                Inr \<lparr>nrows = length dates,
                     cols = [(''date'', map Val stamps), (''tmax'', tmax),
                             (''tmin'', tmin), (''rain'', rain)]\<rparr>)
      else Inl ValueError)"

text \<open>
  \<^verbatim>\<open>weather_df = None; if weather_data: weather_df = ...\<close>. An empty dict is false.
  The four subscripts are evaluated in the order of the dict literal.
\<close>

definition weather_df ::
  "(string \<Rightarrow> rat option) \<Rightarrow> (string \<times> entry) list option \<Rightarrow> error + dataframe option" where
  "weather_df to_datetime weather_data =
     (case weather_data of
        None \<Rightarrow> Inr None
      | Some kvs \<Rightarrow>
          if kvs = [] then Inr None
          else (case get_field time kvs of
                  Inl e \<Rightarrow> Inl e
                | Inr dates \<Rightarrow>
                    (case get_field temperature_2m_max kvs of
                       Inl e \<Rightarrow> Inl e
                     | Inr tmax \<Rightarrow>
                         (case get_field temperature_2m_min kvs of
                            Inl e \<Rightarrow> Inl e
                          | Inr tmin \<Rightarrow>
                              (case get_field precipitation_sum kvs of
                                 Inl e \<Rightarrow> Inl e
                               | Inr rain \<Rightarrow>
                                   (case make_frame to_datetime dates tmax tmin rain of
                                      Inl e \<Rightarrow> Inl e
                                    | Inr df \<Rightarrow> Inr (Some df)))))))"

section \<open>Fetching the flood series\<close>

text \<open>
  What \<^verbatim>\<open>requests.get\<close> does: it raises (a timeout, a connection error; the text is
  that of the exception), or it returns a response with a status code, the text
  \<^verbatim>\<open>raise_for_status\<close> would raise with, and the body as \<^verbatim>\<open>resp.json()\<close> decodes it
  (\<open>Inl\<close> the text of the decoding error).
\<close>

record response =
  status_code :: nat
  http_error :: string
  json_body :: "string + json"

datatype get_result = Raises string | Returns response

definition error_dict :: "string \<Rightarrow> json" where
  "error_dict msg = JObj [(''error'', JStr msg)]"

text \<open>
  \<^verbatim>\<open>fetch_flood\<close>, lines 61 to 75. \<^verbatim>\<open>raise_for_status\<close> raises on a status from 400
  to 599. The handler turns every exception into a dict.
\<close>

definition fetch_flood :: "get_result \<Rightarrow> json" where
  "fetch_flood r =
     (case r of
        Raises e \<Rightarrow> error_dict (''Flood API failed: '' @ e)
      | Returns resp \<Rightarrow>
          if status_code resp = 404
          then error_dict ''No flood model available for this region''
          else if 400 \<le> status_code resp \<and> status_code resp < 600
          then error_dict (''Flood API failed: '' @ http_error resp)
          else (case json_body resp of
                  Inl e \<Rightarrow> error_dict (''Flood API failed: '' @ e)
                | Inr body \<Rightarrow> body))"

section \<open>Notions used to state the properties\<close>

text \<open>The kinds of report lines.\<close>

fun is_risk :: "line \<Rightarrow> bool" where
  "is_risk HighFloodRisk = True"
| "is_risk ModerateFloodRisk = True"
| "is_risk NoFloodRisk = True"
| "is_risk l = False"

fun is_flood :: "line \<Rightarrow> bool" where
  "is_flood FloodHeading = True"
| "is_flood AvgDischarge = True"
| "is_flood (MaxDischarge m) = True"
| "is_flood Blank = True"
| "is_flood FloodUnavailable = True"
| "is_flood l = is_risk l"

fun is_crop :: "line \<Rightarrow> bool" where
  "is_crop (CropRecommendation c) = True"
| "is_crop l = False"

fun is_history :: "line \<Rightarrow> bool" where
  "is_history HistoryHeading = True"
| "is_history (HistoryAvgTemp t) = True"
| "is_history (HistoryTotalRain r) = True"
| "is_history l = False"

fun is_extremes :: "line \<Rightarrow> bool" where
  "is_extremes ExtremesHeading = True"
| "is_extremes (HeatwaveDays n) = True"
| "is_extremes (DroughtDays n) = True"
| "is_extremes (HeavyRainDays n) = True"
| "is_extremes l = False"

text \<open>
  The \<^verbatim>\<open>try\<close> block of the flood section runs to its end: the statistics are computed
  and the maximum is printed.
\<close>

definition completes :: "json \<Rightarrow> bool" where
  "completes daily =
     (case discharge_stats daily of Inl e \<Rightarrow> False | Inr max_discharge \<Rightarrow> printable max_discharge)"

text \<open>
  The summary of a table can be written: the table is absent or empty, or it has the
  columns tmax and rain and pandas computes the mean of the one and the sum of the
  other.
\<close>

definition summary_ok ::
  "(cell list \<Rightarrow> error + double) \<Rightarrow> (cell list \<Rightarrow> error + double) \<Rightarrow> dataframe option
     \<Rightarrow> bool" where
  "summary_ok pd_mean pd_sum t =
     (case t of
        None \<Rightarrow> True
      | Some df \<Rightarrow>
          df_empty df
          \<or> (case column df ''tmax'' of
                None \<Rightarrow> False
              | Some tmax \<Rightarrow>
                  (case column df ''rain'' of
                     None \<Rightarrow> False
                   | Some rain \<Rightarrow> \<not> isl (pd_mean tmax) \<and> \<not> isl (pd_sum rain))))"

text \<open>
  The mean of rain, which the crop recommendation reads first, can be computed: the
  table is absent or empty, or it has the column rain and pandas computes its mean.
\<close>

definition crop_ok :: "(cell list \<Rightarrow> error + double) \<Rightarrow> dataframe option \<Rightarrow> bool" where
  "crop_ok pd_mean t =
     (case t of
        None \<Rightarrow> True
      | Some df \<Rightarrow>
          df_empty df
          \<or> (case column df ''rain'' of None \<Rightarrow> False | Some rain \<Rightarrow> \<not> isl (pd_mean rain)))"

text \<open>
  The failures of a flood request other than the status 404: \<^verbatim>\<open>requests.get\<close>
  raises, the status is from 400 to 599, or the body is not JSON.
\<close>

fun other_failure :: "get_result \<Rightarrow> bool" where
  "other_failure (Raises e) = True"
| "other_failure (Returns resp) =
     (status_code resp \<noteq> 404
      \<and> ((400 \<le> status_code resp \<and> status_code resp < 600) \<or> isl (json_body resp)))"

section \<open>Properties of the classifier\<close>

lemma bool_sum_filter: "bool_sum (map P xs) = int (length (filter P xs))"
  by (induction xs) (simp_all add: bool_sum_def)

lemma bool_sum_bounds: "0 \<le> bool_sum bs \<and> bool_sum bs \<le> int (length bs)"
  by (induction bs) (simp_all add: bool_sum_def)

lemma wf_frame_column:
  assumes "wf_frame df" and "column df name = Some c"
  shows "length c = nrows df"
proof -
  from assms(2) have "(name, c) \<in> set (cols df)"
    by (simp add: column_def map_of_SomeD)
  with assms(1) show ?thesis
    by (auto simp: wf_frame_def list_all_iff)
qed

lemma cell_gt_case: "cell_gt c x = (case c of NaN \<Rightarrow> False | Val v \<Rightarrow> x < v)"
  by (cases c) simp_all

lemma cell_lt_case: "cell_lt c x = (case c of NaN \<Rightarrow> False | Val v \<Rightarrow> v < x)"
  by (cases c) simp_all

lemma filter_upt_nth:
  "length (filter (\<lambda>i. P (xs ! i)) [0..<length xs]) = length (filter P xs)"
proof -
  have "filter P xs = filter P (map (\<lambda>i. xs ! i) [0..<length xs])"
    by (simp add: map_nth)
  also have "\<dots> = map (\<lambda>i. xs ! i) (filter (\<lambda>i. P (xs ! i)) [0..<length xs])"
    by (simp add: filter_map comp_def)
  finally show ?thesis by simp
qed

lemma count_gt:
  "length c = nrows df \<Longrightarrow>
   bool_sum (series_gt c x) = int (length (rows_where df c (\<lambda>v. v > x)))"
  unfolding series_gt_def rows_where_def bool_sum_filter
  using filter_upt_nth [of "\<lambda>c. cell_gt c x" c]
  by (simp add: cell_gt_case)

lemma count_lt:
  "length c = nrows df \<Longrightarrow>
   bool_sum (series_lt c x) = int (length (rows_where df c (\<lambda>v. v < x)))"
  unfolding series_lt_def rows_where_def bool_sum_filter
  using filter_upt_nth [of "\<lambda>c. cell_lt c x" c]
  by (simp add: cell_lt_case)

lemma rows_where_zero: "nrows df = 0 \<Longrightarrow> rows_where df c P = []"
  by (simp add: rows_where_def)

text \<open>
  C1. For every frame with a tmax and a rain column, \<open>analyze_extremes\<close> returns under
  \<^verbatim>\<open>heatwave_days\<close> the number of rows whose tmax is over 40, under \<^verbatim>\<open>drought_days\<close>
  the number of rows whose rain is under 1, and under \<^verbatim>\<open>flood_days\<close> (the heavy-rain
  days) the number of rows whose rain is over 100. A row whose value is missing is in
  none of the three.
\<close>

theorem analyze_extremes_counts:
  assumes "wf_frame df"
    and "column df ''tmax'' = Some tmax"
    and "column df ''rain'' = Some rain"
  shows "analyze_extremes (Some df) =
           [''heatwave_days'' \<mapsto> int (length (rows_where df tmax (\<lambda>v. v > 40))),
            ''drought_days'' \<mapsto> int (length (rows_where df rain (\<lambda>v. v < 1))),
            ''flood_days'' \<mapsto> int (length (rows_where df rain (\<lambda>v. v > 100)))]"
proof -
  have lt: "length tmax = nrows df" and lr: "length rain = nrows df"
    using assms by (simp_all add: wf_frame_column)
  show ?thesis
  proof (cases "df_empty df")
    case True
    from assms(2) have "cols df \<noteq> []" by (auto simp: column_def)
    with True have "nrows df = 0" by (simp add: df_empty_def)
    then show ?thesis
      using True by (simp add: analyze_extremes_def no_events_def rows_where_zero)
  next
    case False
    then show ?thesis
      using assms(2,3) lt lr
      by (simp add: analyze_extremes_def count_gt count_lt)
  qed
qed

text \<open>
  The rows of the end-to-end scenario of the specification, with the third rain value
  missing: one heatwave day, one drought day, one heavy-rain day.
\<close>

theorem analyze_extremes_counts_witness:
  "wf_frame \<lparr>nrows = 3, cols = [(''tmax'', [Val 41, Val 38, Val 20]),
                                (''rain'', [Val (1/2), Val 120, NaN])]\<rparr>
   \<and> analyze_extremes
        (Some \<lparr>nrows = 3, cols = [(''tmax'', [Val 41, Val 38, Val 20]),
                                  (''rain'', [Val (1/2), Val 120, NaN])]\<rparr>)
      = [''heatwave_days'' \<mapsto> 1, ''drought_days'' \<mapsto> 1, ''flood_days'' \<mapsto> 1]"
  using analyze_extremes_counts
    [of "\<lparr>nrows = 3, cols = [(''tmax'', [Val 41, Val 38, Val 20]),
                             (''rain'', [Val (1/2), Val 120, NaN])]\<rparr>"
        "[Val 41, Val 38, Val 20]" "[Val (1/2), Val 120, NaN]"]
  by (simp add: wf_frame_def column_def rows_where_def upt_rec)

text \<open>
  C9. When the argument is \<open>None\<close>, an empty frame, or a frame without the tmax or
  without the rain column, \<open>analyze_extremes\<close> returns the three counts as zero. It is a
  total function: no input makes it fail.
\<close>

theorem analyze_extremes_zero:
  assumes "df = None
           \<or> (\<exists>d. df = Some d
                  \<and> (df_empty d \<or> column d ''tmax'' = None \<or> column d ''rain'' = None))"
  shows "analyze_extremes df =
           [''heatwave_days'' \<mapsto> 0, ''drought_days'' \<mapsto> 0, ''flood_days'' \<mapsto> 0]"
  using assms
  by (auto simp: analyze_extremes_def no_events_def split: option.splits)

text \<open>No frame, a frame without rows, and a frame of two hot days without rain column.\<close>

theorem analyze_extremes_zero_witness:
  "analyze_extremes None =
     [''heatwave_days'' \<mapsto> 0, ''drought_days'' \<mapsto> 0, ''flood_days'' \<mapsto> 0]
   \<and> analyze_extremes (Some \<lparr>nrows = 0, cols = [(''tmax'', []), (''rain'', [])]\<rparr>) =
       [''heatwave_days'' \<mapsto> 0, ''drought_days'' \<mapsto> 0, ''flood_days'' \<mapsto> 0]
   \<and> analyze_extremes (Some \<lparr>nrows = 2, cols = [(''tmax'', [Val 45, Val 50])]\<rparr>) =
       [''heatwave_days'' \<mapsto> 0, ''drought_days'' \<mapsto> 0, ''flood_days'' \<mapsto> 0]"
  using analyze_extremes_zero [of None]
    analyze_extremes_zero [of "Some \<lparr>nrows = 0, cols = [(''tmax'', []), (''rain'', [])]\<rparr>"]
    analyze_extremes_zero [of "Some \<lparr>nrows = 2, cols = [(''tmax'', [Val 45, Val 50])]\<rparr>"]
  by (simp add: df_empty_def column_def)

lemma dry_not_heavy: "\<not> (cell_lt c 1 \<and> cell_gt c 100)"
  by (cases c) simp_all

lemma bool_sum_disjoint:
  "bool_sum (series_lt s 1) + bool_sum (series_gt s 100) \<le> int (length s)"
proof (induction s)
  case Nil
  then show ?case by (simp add: bool_sum_def series_lt_def series_gt_def)
next
  case (Cons c s)
  have "\<not> (cell_lt c 1 \<and> cell_gt c 100)" by (rule dry_not_heavy)
  with Cons show ?case
    by (auto simp: bool_sum_def series_lt_def series_gt_def)
qed

text \<open>
  C10. For every frame, each of the three counts lies between zero and the number of
  rows, and the drought days and the heavy-rain days together are at most the number
  of rows: no cell is both under 1 and over 100 (\<open>dry_not_heavy\<close>).
\<close>

theorem counts_bounded:
  assumes "wf_frame df"
  shows "\<exists>h d f. analyze_extremes (Some df) =
             [''heatwave_days'' \<mapsto> h, ''drought_days'' \<mapsto> d, ''flood_days'' \<mapsto> f]
           \<and> 0 \<le> h \<and> h \<le> int (nrows df)
           \<and> 0 \<le> d \<and> d \<le> int (nrows df)
           \<and> 0 \<le> f \<and> f \<le> int (nrows df)
           \<and> d + f \<le> int (nrows df)"
proof (cases "df_empty df \<or> column df ''tmax'' = None \<or> column df ''rain'' = None")
  case True
  then have "analyze_extremes (Some df) = no_events"
    by (auto simp: analyze_extremes_def split: option.splits)
  then have "analyze_extremes (Some df) =
      [''heatwave_days'' \<mapsto> 0, ''drought_days'' \<mapsto> 0, ''flood_days'' \<mapsto> 0]
      \<and> (0::int) \<le> 0 \<and> 0 \<le> int (nrows df) \<and> (0::int) + 0 \<le> int (nrows df)"
    by (simp add: no_events_def)
  then show ?thesis by blast
next
  case False
  then obtain tmax rain
    where c: "column df ''tmax'' = Some tmax" "column df ''rain'' = Some rain"
    by auto
  with assms have l: "length tmax = nrows df" "length rain = nrows df"
    by (simp_all add: wf_frame_column)
  have e: "analyze_extremes (Some df) =
      [''heatwave_days'' \<mapsto> bool_sum (series_gt tmax 40),
       ''drought_days'' \<mapsto> bool_sum (series_lt rain 1),
       ''flood_days'' \<mapsto> bool_sum (series_gt rain 100)]"
    using False c by (simp add: analyze_extremes_def)
  have "length (series_gt tmax 40) = nrows df" "length (series_lt rain 1) = nrows df"
    "length (series_gt rain 100) = nrows df"
    using l by (simp_all add: series_gt_def series_lt_def)
  then have b:
    "0 \<le> bool_sum (series_gt tmax 40) \<and> bool_sum (series_gt tmax 40) \<le> int (nrows df)"
    "0 \<le> bool_sum (series_lt rain 1) \<and> bool_sum (series_lt rain 1) \<le> int (nrows df)"
    "0 \<le> bool_sum (series_gt rain 100) \<and> bool_sum (series_gt rain 100) \<le> int (nrows df)"
    using bool_sum_bounds [of "series_gt tmax 40"] bool_sum_bounds [of "series_lt rain 1"]
      bool_sum_bounds [of "series_gt rain 100"] by simp_all
  have "bool_sum (series_lt rain 1) + bool_sum (series_gt rain 100) \<le> int (nrows df)"
    using bool_sum_disjoint [of rain] l by simp
  with e b show ?thesis by blast
qed

theorem counts_bounded_witness:
  "wf_frame \<lparr>nrows = 3, cols = [(''tmax'', [Val 41, Val 48, Val 20]),
                                (''rain'', [Val 0, Val 120, Val 101])]\<rparr>
   \<and> (\<exists>h d f. analyze_extremes
                 (Some \<lparr>nrows = 3, cols = [(''tmax'', [Val 41, Val 48, Val 20]),
                                           (''rain'', [Val 0, Val 120, Val 101])]\<rparr>) =
                 [''heatwave_days'' \<mapsto> h, ''drought_days'' \<mapsto> d, ''flood_days'' \<mapsto> f]
               \<and> 0 \<le> h \<and> h \<le> 3 \<and> 0 \<le> d \<and> d \<le> 3 \<and> 0 \<le> f \<and> f \<le> 3 \<and> d + f \<le> 3)"
proof -
  have w: "wf_frame \<lparr>nrows = 3, cols = [(''tmax'', [Val 41, Val 48, Val 20]),
                                        (''rain'', [Val 0, Val 120, Val 101])]\<rparr>"
    by (simp add: wf_frame_def)
  show ?thesis using w counts_bounded [OF w] by simp
qed

section \<open>Properties of the flood section\<close>

lemma filter_flood_report:
  assumes "generate_report pd_mean pd_sum region s e w f ex fd = Inr ls"
  shows "filter is_flood ls = flood_section fd"
proof -
  have fl: "filter is_flood (flood_section fd) = flood_section fd"
    by (auto simp: flood_section_def risk_message_def split: option.splits sum.splits)
  from assms obtain h fc c where
    h: "history_section pd_mean pd_sum w = Inr h"
    and fc: "forecast_section pd_mean pd_sum f = Inr fc"
    and c: "crop_section pd_mean w = Inr c"
    and ls: "ls = header region s e @ h @ fc @ extremes_section ex @ flood_section fd
                  @ c @ advice_section ex"
    by (auto simp: generate_report_def split: sum.splits)
  have "filter is_flood h = []" using h
    by (auto simp: history_section_def split: option.splits if_splits sum.splits)
  moreover have "filter is_flood fc = []" using fc
    by (auto simp: forecast_section_def split: option.splits if_splits sum.splits)
  moreover have "filter is_flood c = []" using c
    by (auto simp: crop_section_def split: option.splits if_splits sum.splits)
  moreover have "filter is_flood (advice_section ex) = []"
    by (simp add: advice_section_def)
  moreover have "filter is_flood (extremes_section ex) = []"
    by (simp add: extremes_section_def)
  moreover have "filter is_flood (header region s e) = []"
    by (simp add: header_def)
  ultimately show ?thesis using ls fl by simp
qed

lemma is_risk_flood: "is_risk l \<Longrightarrow> is_flood l"
  by (cases l) simp_all

lemma filter_risk_flood: "filter is_risk (filter is_flood ls) = filter is_risk ls"
  by (induction ls) (auto simp: is_risk_flood)

lemma sum_from_ok_numbers: "sum_from a vs = Inr t \<Longrightarrow> \<exists>xs. map num_of vs = map Some xs"
proof (induction vs arbitrary: a)
  case Nil
  then show ?case by simp
next
  case (Cons v vs)
  then obtain x a' where x: "num_of v = Some x" "sum_from a' vs = Inr t"
    by (auto split: option.splits sum.splits)
  from Cons.IH [OF x(2)] obtain xs where "map num_of vs = map Some xs" by blast
  with x(1) have "map num_of (v # vs) = map Some (x # xs)" by simp
  then show ?case by blast
qed

lemma max_from_numbers:
  "map num_of vs = map Some xs \<Longrightarrow> \<exists>m'. max_from m vs = Inr m' \<and> m' \<in> set (m # xs)"
proof (induction vs arbitrary: m xs)
  case Nil
  then show ?case by simp
next
  case (Cons v vs)
  then obtain x xs' where xs: "xs = x # xs'" "num_of v = Some x" "map num_of vs = map Some xs'"
    by (cases xs) auto
  from Cons.IH [OF xs(3), of "if py_gt x m then x else m"] xs(1,2)
  show ?case by (auto split: if_splits)
qed

lemma dgt_irrefl: "\<not> dgt a a"
  by (cases a) simp_all

lemma dgt_asym: "dgt a b \<Longrightarrow> \<not> dgt b a"
  by (cases a; cases b) simp_all

lemma dle_trans:
  "a \<noteq> Nan \<Longrightarrow> b \<noteq> Nan \<Longrightarrow> c \<noteq> Nan \<Longrightarrow> \<not> dgt a b \<Longrightarrow> \<not> dgt b c \<Longrightarrow> \<not> dgt a c"
  by (cases a; cases b; cases c) simp_all

lemma max_from_greatest:
  assumes "map num_of vs = map Some xs"
    and "float_of m \<noteq> Nan"
    and "\<forall>x\<in>set xs. float_of x \<noteq> Nan"
  shows "\<exists>m'. max_from m vs = Inr m' \<and> m' \<in> set (m # xs) \<and> float_of m' \<noteq> Nan
           \<and> \<not> py_gt m m' \<and> (\<forall>x\<in>set xs. \<not> py_gt x m')"
  using assms
proof (induction vs arbitrary: m xs)
  case Nil
  then show ?case by (simp add: py_gt_def dgt_irrefl)
next
  case (Cons v vs)
  then obtain x xs' where xs: "xs = x # xs'" "num_of v = Some x" "map num_of vs = map Some xs'"
    by (cases xs) auto
  let ?m1 = "if py_gt x m then x else m"
  have n1: "float_of ?m1 \<noteq> Nan" and nx: "float_of x \<noteq> Nan"
    and nr: "\<forall>y\<in>set xs'. float_of y \<noteq> Nan"
    using Cons.prems xs(1) by auto
  from Cons.IH [OF xs(3) n1 nr] obtain m' where
    m': "max_from ?m1 vs = Inr m'" "m' \<in> set (?m1 # xs')" "float_of m' \<noteq> Nan"
        "\<not> py_gt ?m1 m'" "\<forall>y\<in>set xs'. \<not> py_gt y m'"
    by blast
  have le: "\<not> py_gt m m' \<and> \<not> py_gt x m'"
  proof (cases "py_gt x m")
    case True
    then have "\<not> py_gt m x" by (simp add: py_gt_def dgt_asym)
    with True m'(4) dle_trans [of "float_of m" "float_of x" "float_of m'"]
      Cons.prems(2) nx m'(3)
    show ?thesis by (auto simp: py_gt_def)
  next
    case False
    with m'(4) dle_trans [of "float_of x" "float_of m" "float_of m'"]
      Cons.prems(2) nx m'(3)
    show ?thesis by (auto simp: py_gt_def)
  qed
  have "max_from m (v # vs) = Inr m'" using xs(2) m'(1) by simp
  moreover have "m' \<in> set (m # xs)" using m'(2) xs(1) by (auto split: if_splits)
  ultimately show ?case using m'(3,5) le xs(1) by auto
qed

lemma py_max_after_sum:
  assumes "py_sum v = Inr t" and "py_len v = Inr n" and "n \<noteq> 0"
  shows "\<exists>m. py_max v = Inr m"
proof -
  from assms(1) obtain ys where ys: "py_iter v = Inr ys" "sum_from (IntSum 0) ys = Inr t"
    by (auto simp: py_sum_def split: sum.splits)
  from sum_from_ok_numbers [OF ys(2)] obtain xs where xs: "map num_of ys = map Some xs" by blast
  have "length ys = n" using ys(1) assms(2) by (cases v) auto
  with assms(3) obtain y ys' where c: "ys = y # ys'" by (cases ys) auto
  with xs obtain x xs' where x: "num_of y = Some x" "map num_of ys' = map Some xs'"
    by (cases xs) auto
  from max_from_numbers [OF x(2), of x] obtain m where "max_from x ys' = Inr m" by blast
  then show ?thesis using ys(1) c x(1)
    by (simp add: py_max_def)
qed

lemma discharge_stats_Inr:
  assumes "discharge_stats daily = Inr m"
  shows "\<exists>d vs xs. daily = JObj d \<and> map_of d ''river_discharge'' = Some (JArr vs)
           \<and> map num_of vs = map Some xs \<and> xs \<noteq> [] \<and> py_max (JArr vs) = Inr m"
proof -
  from assms obtain v t n where v: "py_getitem daily ''river_discharge'' = Inr v"
    and t: "py_sum v = Inr t" and n: "py_len v = Inr n" and d: "py_div t n = Inr ()"
    and mx: "py_max v = Inr m"
    by (auto simp: discharge_stats_def split: sum.splits)
  from d have n0: "n \<noteq> 0" by (cases t) (auto split: if_splits)
  from v obtain d where dd: "daily = JObj d" "map_of d ''river_discharge'' = Some v"
    by (cases daily) (auto split: option.splits)
  from t obtain ys where ys: "py_iter v = Inr ys" "sum_from (IntSum 0) ys = Inr t"
    by (auto simp: py_sum_def split: sum.splits)
  from sum_from_ok_numbers [OF ys(2)] obtain xs where xs: "map num_of ys = map Some xs" by blast
  have len: "length ys = n" using ys(1) n by (cases v) auto
  with n0 have "ys \<noteq> []" by auto
  with xs have xne: "xs \<noteq> []" by auto
  have "v = JArr ys"
  proof (cases v)
    case (JStr s)
    with ys(1) \<open>ys \<noteq> []\<close> obtain k rest where "ys = JStr k # rest"
      by (cases s) auto
    with xs show ?thesis by (cases xs) auto
  next
    case (JObj kvs)
    with ys(1) \<open>ys \<noteq> []\<close> obtain k rest where "ys = JStr k # rest"
      by (cases kvs) auto
    with xs show ?thesis by (cases xs) auto
  qed (use ys(1) in auto)
  with dd xs xne mx show ?thesis by blast
qed

lemma flood_section_completes:
  assumes "map_of fd ''daily'' = Some daily" and "completes daily"
  shows "\<exists>m. discharge_stats daily = Inr m \<and> printable m
           \<and> flood_section (Some fd) =
               [FloodHeading, AvgDischarge, MaxDischarge m, risk_message m, Blank]"
proof -
  from assms(1) have "fd \<noteq> []" by auto
  moreover from assms(2) obtain m where "discharge_stats daily = Inr m" "printable m"
    by (auto simp: completes_def split: sum.splits)
  ultimately show ?thesis using assms(1) by (simp add: flood_section_def)
qed

text \<open>
  The \<^verbatim>\<open>try\<close> block runs to its end on every non-empty array of floats.
\<close>

lemma completes_floats:
  assumes "map_of d ''river_discharge'' = Some (JArr vs)"
    and "map num_of vs = map (\<lambda>x. Some (PFloat x)) ds"
    and "ds \<noteq> []"
  shows "completes (JObj d)"
proof -
  from assms(2,3) obtain v vs' x ds' where vs: "vs = v # vs'" "ds = x # ds'"
    "num_of v = Some (PFloat x)" "map num_of vs' = map (\<lambda>x. Some (PFloat x)) ds'"
    by (cases vs; cases ds) auto
  have s: "sum_from FloatSum us = Inr FloatSum"
    if "map num_of us = map (\<lambda>x. Some (PFloat x)) es" for us es
    using that
  proof (induction us arbitrary: es)
    case Nil
    then show ?case by simp
  next
    case (Cons u us)
    then obtain e es' where "es = e # es'" "num_of u = Some (PFloat e)"
      "map num_of us = map (\<lambda>x. Some (PFloat x)) es'"
      by (cases es) auto
    with Cons.IH show ?case by simp
  qed
  have sum: "py_sum (JArr vs) = Inr FloatSum"
    using vs s [OF vs(4)] by (simp add: py_sum_def float_range_def)
  have "map num_of vs' = map Some (map PFloat ds')" using vs(4) by (simp add: comp_def)
  from max_from_numbers [OF this, of "PFloat x"] obtain m where
    m: "max_from (PFloat x) vs' = Inr m" "m \<in> set (PFloat x # map PFloat ds')"
    by blast
  then have "printable m" by auto
  with m(1) vs sum assms(1) show ?thesis
    by (simp add: completes_def discharge_stats_def py_max_def)
qed

text \<open>
  C2, as amended. For every flood payload whose \<^verbatim>\<open>daily.river_discharge\<close> is an
  array of numbers \<open>xs\<close>, none of them NaN, on which the \<^verbatim>\<open>try\<close> block runs to its
  end (the average is computed and the maximum printed: no int beyond the range of a
  float is met), the flood section prints the maximum \<open>m\<close> of the series, an element
  that no element exceeds, and its one risk message depends on \<open>m\<close> alone: the
  high-risk message when \<open>m\<close> is over 5000, the moderate-risk message when it is over
  2000 and not over 5000, the no-significant-risk message when it is not over 2000.
  No other section of the report has a risk message.
\<close>

theorem flood_risk_tiers:
  assumes "map_of fd ''daily'' = Some (JObj d)"
    and "map_of d ''river_discharge'' = Some (JArr vs)"
    and "map num_of vs = map Some xs"
    and "PFloat Nan \<notin> set xs"
    and "completes (JObj d)"
  shows "\<exists>m. m \<in> set xs \<and> (\<forall>x\<in>set xs. \<not> py_gt x m)
    \<and> MaxDischarge m \<in> set (flood_section (Some fd))
    \<and> (py_gt m (PInt 5000) \<longrightarrow>
         filter is_risk (flood_section (Some fd)) = [HighFloodRisk])
    \<and> (py_gt m (PInt 2000) \<and> \<not> py_gt m (PInt 5000) \<longrightarrow>
         filter is_risk (flood_section (Some fd)) = [ModerateFloodRisk])
    \<and> (\<not> py_gt m (PInt 2000) \<longrightarrow>
         filter is_risk (flood_section (Some fd)) = [NoFloodRisk])
    \<and> (\<forall>ls. generate_report pd_mean pd_sum region start_date end_date hist_df fc_df
               extremes (Some fd) = Inr ls \<longrightarrow>
             filter is_risk ls = filter is_risk (flood_section (Some fd)))"
proof -
  from flood_section_completes [OF assms(1,5)] obtain m where
    m: "discharge_stats (JObj d) = Inr m"
    and fs: "flood_section (Some fd) =
               [FloodHeading, AvgDischarge, MaxDischarge m, risk_message m, Blank]"
    by blast
  from discharge_stats_Inr [OF m] assms(2) have mx: "py_max (JArr vs) = Inr m"
    by auto
  have nn: "\<forall>x\<in>set xs. float_of x \<noteq> Nan"
  proof
    fix x assume "x \<in> set xs"
    with assms(4) show "float_of x \<noteq> Nan" by (cases x) auto
  qed
  from mx obtain v vs' where vs: "vs = v # vs'"
    by (cases vs) (auto simp: py_max_def)
  with assms(3) obtain x xs' where xs: "xs = x # xs'" "num_of v = Some x"
    "map num_of vs' = map Some xs'"
    by (cases xs) auto
  from nn xs(1) have "float_of x \<noteq> Nan" "\<forall>y\<in>set xs'. float_of y \<noteq> Nan" by auto
  from max_from_greatest [OF xs(3) this] obtain m' where
    m': "max_from x vs' = Inr m'" "m' \<in> set (x # xs')" "\<not> py_gt x m'"
        "\<forall>y\<in>set xs'. \<not> py_gt y m'"
    by blast
  from mx vs xs(2) m'(1) have "m' = m" by (simp add: py_max_def)
  with m' xs(1) have g: "m \<in> set xs" "\<forall>y\<in>set xs. \<not> py_gt y m" by auto
  have r: "\<forall>ls. generate_report pd_mean pd_sum region start_date end_date hist_df fc_df
               extremes (Some fd) = Inr ls \<longrightarrow>
             filter is_risk ls = filter is_risk (flood_section (Some fd))"
    using filter_flood_report filter_risk_flood by metis
  have t: "MaxDischarge m \<in> set (flood_section (Some fd))
    \<and> (py_gt m (PInt 5000) \<longrightarrow>
         filter is_risk (flood_section (Some fd)) = [HighFloodRisk])
    \<and> (py_gt m (PInt 2000) \<and> \<not> py_gt m (PInt 5000) \<longrightarrow>
         filter is_risk (flood_section (Some fd)) = [ModerateFloodRisk])
    \<and> (\<not> py_gt m (PInt 2000) \<longrightarrow>
         filter is_risk (flood_section (Some fd)) = [NoFloodRisk])"
  proof -
    have "py_gt m (PInt 5000) \<Longrightarrow> py_gt m (PInt 2000)"
      by (cases m; cases "float_of m") (auto simp: py_gt_def)
    then show ?thesis by (auto simp: fs risk_message_def)
  qed
  from g t r show ?thesis by blast
qed

text \<open>
  The payload of the specification (100, 200, 5200) and the five boundary values.
\<close>

theorem flood_risk_tiers_witness:
  "filter is_risk (flood_section
      (Some [(''daily'', JObj [(''river_discharge'', JArr [JInt 100, JInt 200, JInt 5200])])]))
     = [HighFloodRisk]
   \<and> filter is_risk (flood_section
      (Some [(''daily'', JObj [(''river_discharge'', JArr [JInt 5001])])])) = [HighFloodRisk]
   \<and> filter is_risk (flood_section
      (Some [(''daily'', JObj [(''river_discharge'', JArr [JInt 5000])])])) = [ModerateFloodRisk]
   \<and> filter is_risk (flood_section
      (Some [(''daily'', JObj [(''river_discharge'', JArr [JInt 2001])])])) = [ModerateFloodRisk]
   \<and> filter is_risk (flood_section
      (Some [(''daily'', JObj [(''river_discharge'', JArr [JFloat (Finite 2000)])])]))
     = [NoFloodRisk]
   \<and> filter is_risk (flood_section
      (Some [(''daily'', JObj [(''river_discharge'', JArr [JInt 0])])])) = [NoFloodRisk]"
proof -
  have c: "completes (JObj [(''river_discharge'', JArr [JInt 100, JInt 200, JInt 5200])])"
    "completes (JObj [(''river_discharge'', JArr [JInt 5001])])"
    "completes (JObj [(''river_discharge'', JArr [JInt 5000])])"
    "completes (JObj [(''river_discharge'', JArr [JInt 2001])])"
    "completes (JObj [(''river_discharge'', JArr [JFloat (Finite 2000)])])"
    "completes (JObj [(''river_discharge'', JArr [JInt 0])])"
    by (simp_all add: completes_def discharge_stats_def py_sum_def py_max_def py_gt_def
        float_range_def)
  have a: "filter is_risk (flood_section
      (Some [(''daily'', JObj [(''river_discharge'', JArr [JInt 100, JInt 200, JInt 5200])])]))
     = [HighFloodRisk]"
    using flood_risk_tiers
      [of "[(''daily'', JObj [(''river_discharge'', JArr [JInt 100, JInt 200, JInt 5200])])]"
          "[(''river_discharge'', JArr [JInt 100, JInt 200, JInt 5200])]"
          "[JInt 100, JInt 200, JInt 5200]" "[PInt 100, PInt 200, PInt 5200]"
          "\<lambda>c. Inr Nan" "\<lambda>c. Inr Nan" "[]" "[]" "[]" None None Map.empty] c(1)
    by (auto simp: py_gt_def)
  have b: "filter is_risk (flood_section
      (Some [(''daily'', JObj [(''river_discharge'', JArr [JInt 5001])])])) = [HighFloodRisk]"
    using flood_risk_tiers
      [of "[(''daily'', JObj [(''river_discharge'', JArr [JInt 5001])])]"
          "[(''river_discharge'', JArr [JInt 5001])]" "[JInt 5001]" "[PInt 5001]"
          "\<lambda>c. Inr Nan" "\<lambda>c. Inr Nan" "[]" "[]" "[]" None None Map.empty] c(2)
    by (auto simp: py_gt_def)
  have d: "filter is_risk (flood_section
      (Some [(''daily'', JObj [(''river_discharge'', JArr [JInt 5000])])])) = [ModerateFloodRisk]"
    using flood_risk_tiers
      [of "[(''daily'', JObj [(''river_discharge'', JArr [JInt 5000])])]"
          "[(''river_discharge'', JArr [JInt 5000])]" "[JInt 5000]" "[PInt 5000]"
          "\<lambda>c. Inr Nan" "\<lambda>c. Inr Nan" "[]" "[]" "[]" None None Map.empty] c(3)
    by (auto simp: py_gt_def)
  have e: "filter is_risk (flood_section
      (Some [(''daily'', JObj [(''river_discharge'', JArr [JInt 2001])])])) = [ModerateFloodRisk]"
    using flood_risk_tiers
      [of "[(''daily'', JObj [(''river_discharge'', JArr [JInt 2001])])]"
          "[(''river_discharge'', JArr [JInt 2001])]" "[JInt 2001]" "[PInt 2001]"
          "\<lambda>c. Inr Nan" "\<lambda>c. Inr Nan" "[]" "[]" "[]" None None Map.empty] c(4)
    by (auto simp: py_gt_def)
  have f: "filter is_risk (flood_section
      (Some [(''daily'', JObj [(''river_discharge'', JArr [JFloat (Finite 2000)])])]))
     = [NoFloodRisk]"
    using flood_risk_tiers
      [of "[(''daily'', JObj [(''river_discharge'', JArr [JFloat (Finite 2000)])])]"
          "[(''river_discharge'', JArr [JFloat (Finite 2000)])]" "[JFloat (Finite 2000)]"
          "[PFloat (Finite 2000)]"
          "\<lambda>c. Inr Nan" "\<lambda>c. Inr Nan" "[]" "[]" "[]" None None Map.empty] c(5)
    by (auto simp: py_gt_def)
  have g: "filter is_risk (flood_section
      (Some [(''daily'', JObj [(''river_discharge'', JArr [JInt 0])])])) = [NoFloodRisk]"
    using flood_risk_tiers
      [of "[(''daily'', JObj [(''river_discharge'', JArr [JInt 0])])]"
          "[(''river_discharge'', JArr [JInt 0])]" "[JInt 0]" "[PInt 0]"
          "\<lambda>c. Inr Nan" "\<lambda>c. Inr Nan" "[]" "[]" "[]" None None Map.empty] c(6)
    by (auto simp: py_gt_def)
  from a b d e f g show ?thesis by blast
qed

text \<open>
  C2 as stated fails. \<^verbatim>\<open>max\<close> keeps its first element unless a later one compares
  greater, and no comparison with NaN is true: the series NaN, 6000 gets the
  no-significant-risk message although it holds a discharge of 6000, and the same two
  values in the other order get the high-risk message. The tier is not determined by
  the maximum discharge of the series.
\<close>

theorem flood_tier_depends_on_order:
  "flood_section
     (Some [(''daily'', JObj [(''river_discharge'', JArr [JFloat Nan, JFloat (Finite 6000)])])])
     = [FloodHeading, AvgDischarge, MaxDischarge (PFloat Nan), NoFloodRisk, Blank]
   \<and> flood_section
     (Some [(''daily'', JObj [(''river_discharge'', JArr [JFloat (Finite 6000), JFloat Nan])])])
     = [FloodHeading, AvgDischarge, MaxDischarge (PFloat (Finite 6000)), HighFloodRisk, Blank]"
  by (simp add: flood_section_def discharge_stats_def py_sum_def py_max_def py_gt_def
      float_range_def risk_message_def)


text \<open>
  An overflow at line 117 is caught before anything is appended.
\<close>

lemma flood_section_overflow:
  "flood_section (Some [(''daily'', JObj [(''river_discharge'', JArr [JInt (10 ^ 309)])])])
   = [FloodUnavailable]"
  by (simp add: flood_section_def discharge_stats_def py_sum_def float_range_def)

text \<open>
  When it is line 116, 117 or 118 that raises, the flood section is the single line of
  the handler; the report fails exactly when it fails without a flood payload, and
  otherwise it is the report without flood payload with that one line between the
  extreme events and the crop recommendation.
\<close>

lemma flood_unavailable:
  assumes "map_of fd ''daily'' = Some daily"
    and "discharge_stats daily = Inl err"
  shows "flood_section (Some fd) = [FloodUnavailable]
    \<and> (\<forall>e. generate_report pd_mean pd_sum region start_date end_date hist_df fc_df extremes
              (Some fd) = Inl e
            \<longleftrightarrow> generate_report pd_mean pd_sum region start_date end_date hist_df fc_df
                  extremes None = Inl e)
    \<and> (\<forall>h fc c.
          history_section pd_mean pd_sum hist_df = Inr h
          \<and> forecast_section pd_mean pd_sum fc_df = Inr fc
          \<and> crop_section pd_mean hist_df = Inr c \<longrightarrow>
          generate_report pd_mean pd_sum region start_date end_date hist_df fc_df extremes
            None =
            Inr (header region start_date end_date @ h @ fc @ extremes_section extremes
                 @ c @ advice_section extremes)
          \<and> generate_report pd_mean pd_sum region start_date end_date hist_df fc_df extremes
              (Some fd) =
            Inr (header region start_date end_date @ h @ fc @ extremes_section extremes
                 @ [FloodUnavailable] @ c @ advice_section extremes))"
proof -
  from assms(1) have "fd \<noteq> []" by auto
  with assms have fs: "flood_section (Some fd) = [FloodUnavailable]"
    by (simp add: flood_section_def)
  have n: "flood_section None = []"
    by (simp add: flood_section_def)
  show ?thesis
    unfolding generate_report_def fs n
    by (auto split: sum.splits)
qed

section \<open>Properties of the report\<close>

lemma filter_crop_report:
  assumes "generate_report pd_mean pd_sum region s e w f ex fd = Inr ls"
  shows "\<exists>c. crop_section pd_mean w = Inr c \<and> filter is_crop ls = filter is_crop c"
proof -
  from assms obtain h fc c where
    h: "history_section pd_mean pd_sum w = Inr h"
    and fc: "forecast_section pd_mean pd_sum f = Inr fc"
    and c: "crop_section pd_mean w = Inr c"
    and ls: "ls = header region s e @ h @ fc @ extremes_section ex @ flood_section fd
                  @ c @ advice_section ex"
    by (auto simp: generate_report_def split: sum.splits)
  have "filter is_crop h = []" using h
    by (auto simp: history_section_def split: option.splits if_splits sum.splits)
  moreover have "filter is_crop fc = []" using fc
    by (auto simp: forecast_section_def split: option.splits if_splits sum.splits)
  moreover have "filter is_crop (flood_section fd) = []"
    by (auto simp: flood_section_def risk_message_def split: option.splits sum.splits)
  moreover have "filter is_crop (advice_section ex) = []"
    by (simp add: advice_section_def)
  moreover have "filter is_crop (extremes_section ex) = []"
    by (simp add: extremes_section_def)
  moreover have "filter is_crop (header region s e) = []"
    by (simp add: header_def)
  ultimately show ?thesis using ls c by simp
qed

text \<open>
  C3. For every non-empty historical frame with its rain and tmax columns, whose
  means pandas computes (\<open>mean_rain\<close> and \<open>mean_tmax\<close>, the floats that
  \<^verbatim>\<open>Series.mean()\<close> returns), the crop section is one recommendation, and it is the
  only recommendation of the report: Rice exactly when the mean of rain is over 5 and
  the mean of tmax is over 25, Wheat in every other case.
\<close>

theorem crop_recommendation:
  assumes "\<not> df_empty df"
    and "column df ''rain'' = Some rain"
    and "column df ''tmax'' = Some tmax"
    and "pd_mean rain = Inr mean_rain"
    and "pd_mean tmax = Inr mean_tmax"
  shows "\<exists>crop. crop_section pd_mean (Some df) = Inr [CropRecommendation crop]
    \<and> (crop = ''Rice'' \<longleftrightarrow> dgt mean_rain (Finite 5) \<and> dgt mean_tmax (Finite 25))
    \<and> (crop = ''Wheat'' \<longleftrightarrow> \<not> (dgt mean_rain (Finite 5) \<and> dgt mean_tmax (Finite 25)))
    \<and> (\<forall>ls. generate_report pd_mean pd_sum region start_date end_date (Some df) fc_df
               extremes flood_data = Inr ls \<longrightarrow>
             filter is_crop ls = [CropRecommendation crop])"
proof -
  define crop where
    "crop = (if dgt mean_rain (Finite 5) \<and> dgt mean_tmax (Finite 25) then ''Rice'' else ''Wheat'')"
  have cs: "crop_section pd_mean (Some df) = Inr [CropRecommendation crop]"
    using assms by (simp add: crop_section_def crop_def)
  have "\<forall>ls. generate_report pd_mean pd_sum region start_date end_date (Some df) fc_df
               extremes flood_data = Inr ls \<longrightarrow>
             filter is_crop ls = [CropRecommendation crop]"
  proof (intro allI impI)
    fix ls
    assume "generate_report pd_mean pd_sum region start_date end_date (Some df) fc_df
               extremes flood_data = Inr ls"
    from filter_crop_report [OF this] cs show "filter is_crop ls = [CropRecommendation crop]"
      by auto
  qed
  moreover have "(crop = ''Rice'' \<longleftrightarrow> dgt mean_rain (Finite 5) \<and> dgt mean_tmax (Finite 25))"
    "(crop = ''Wheat'' \<longleftrightarrow> \<not> (dgt mean_rain (Finite 5) \<and> dgt mean_tmax (Finite 25)))"
    by (simp_all add: crop_def)
  ultimately show ?thesis using cs by blast
qed

text \<open>
  Means of rain and tmax of 6 and 26 (Rice), 4 and 26 (Wheat), 6 and 24 (Wheat), a
  rain column without values, whose mean is NaN (Wheat), and a whole report.
\<close>

theorem crop_recommendation_witness:
  "crop_section (\<lambda>c. Inr (Finite (if c = [Val 10, Val 2] then 6 else 26)))
     (Some \<lparr>nrows = 2, cols = [(''tmax'', [Val 30, Val 22]), (''rain'', [Val 10, Val 2])]\<rparr>)
     = Inr [CropRecommendation ''Rice'']
   \<and> crop_section (\<lambda>c. Inr (Finite (if c = [Val 6, Val 2] then 4 else 26)))
     (Some \<lparr>nrows = 2, cols = [(''tmax'', [Val 30, Val 22]), (''rain'', [Val 6, Val 2])]\<rparr>)
     = Inr [CropRecommendation ''Wheat'']
   \<and> crop_section (\<lambda>c. Inr (Finite (if c = [Val 10, Val 2] then 6 else 24)))
     (Some \<lparr>nrows = 2, cols = [(''tmax'', [Val 26, Val 22]), (''rain'', [Val 10, Val 2])]\<rparr>)
     = Inr [CropRecommendation ''Wheat'']
   \<and> crop_section (\<lambda>c. Inr Nan)
     (Some \<lparr>nrows = 2, cols = [(''tmax'', [Val 30, Val 22]), (''rain'', [NaN, NaN])]\<rparr>)
     = Inr [CropRecommendation ''Wheat'']
   \<and> (\<exists>ls. generate_report (\<lambda>c. Inr (Finite (if c = [Val 10, Val 2] then 6 else 26)))
              (\<lambda>c. Inr (Finite 12)) ''Delta Farm'' ''2023-01-01'' ''2023-01-02''
              (Some \<lparr>nrows = 2, cols = [(''tmax'', [Val 30, Val 22]),
                                        (''rain'', [Val 10, Val 2])]\<rparr>)
              None [''heatwave_days'' \<mapsto> 1] None = Inr ls
          \<and> filter is_crop ls = [CropRecommendation ''Rice''])"
proof -
  let ?m1 = "\<lambda>c. Inr (Finite (if c = [Val 10, Val 2] then 6 else 26)) :: error + double"
  let ?d1 = "\<lparr>nrows = 2, cols = [(''tmax'', [Val 30, Val 22]), (''rain'', [Val 10, Val 2])]\<rparr>"
  let ?m2 = "\<lambda>c. Inr (Finite (if c = [Val 6, Val 2] then 4 else 26)) :: error + double"
  let ?d2 = "\<lparr>nrows = 2, cols = [(''tmax'', [Val 30, Val 22]), (''rain'', [Val 6, Val 2])]\<rparr>"
  let ?m3 = "\<lambda>c. Inr (Finite (if c = [Val 10, Val 2] then 6 else 24)) :: error + double"
  let ?d3 = "\<lparr>nrows = 2, cols = [(''tmax'', [Val 26, Val 22]), (''rain'', [Val 10, Val 2])]\<rparr>"
  let ?m4 = "\<lambda>c. Inr Nan :: error + double"
  let ?d4 = "\<lparr>nrows = 2, cols = [(''tmax'', [Val 30, Val 22]), (''rain'', [NaN, NaN])]\<rparr>"
  let ?s = "\<lambda>c. Inr (Finite 12) :: error + double"
  have a: "crop_section ?m1 (Some ?d1) = Inr [CropRecommendation ''Rice'']"
    using crop_recommendation [of ?d1 "[Val 10, Val 2]" "[Val 30, Val 22]" ?m1 "Finite 6"
        "Finite 26" ?s "[]" "[]" "[]" None Map.empty None]
    by (auto simp: df_empty_def column_def)
  have b: "crop_section ?m2 (Some ?d2) = Inr [CropRecommendation ''Wheat'']"
    using crop_recommendation [of ?d2 "[Val 6, Val 2]" "[Val 30, Val 22]" ?m2 "Finite 4"
        "Finite 26" ?s "[]" "[]" "[]" None Map.empty None]
    by (auto simp: df_empty_def column_def)
  have c: "crop_section ?m3 (Some ?d3) = Inr [CropRecommendation ''Wheat'']"
    using crop_recommendation [of ?d3 "[Val 10, Val 2]" "[Val 26, Val 22]" ?m3 "Finite 6"
        "Finite 24" ?s "[]" "[]" "[]" None Map.empty None]
    by (auto simp: df_empty_def column_def)
  have d: "crop_section ?m4 (Some ?d4) = Inr [CropRecommendation ''Wheat'']"
    using crop_recommendation [of ?d4 "[NaN, NaN]" "[Val 30, Val 22]" ?m4 Nan Nan ?s
        "[]" "[]" "[]" None Map.empty None]
    by (auto simp: df_empty_def column_def)
  have g: "generate_report ?m1 ?s ''Delta Farm'' ''2023-01-01'' ''2023-01-02'' (Some ?d1)
              None [''heatwave_days'' \<mapsto> 1] None
      = Inr [Title, Region ''Delta Farm'', Period ''2023-01-01'' ''2023-01-02'',
             HistoryHeading, HistoryAvgTemp (Finite 26), HistoryTotalRain (Finite 12),
             ExtremesHeading, HeatwaveDays 1, DroughtDays 0, HeavyRainDays 0,
             CropRecommendation ''Rice'']"
    by (simp add: generate_report_def history_section_def forecast_section_def crop_section_def
        df_empty_def column_def header_def extremes_section_def
        get_count_def flood_section_def advice_section_def)
  have e: "\<exists>ls. generate_report ?m1 ?s ''Delta Farm'' ''2023-01-01'' ''2023-01-02'' (Some ?d1)
              None [''heatwave_days'' \<mapsto> 1] None = Inr ls
          \<and> filter is_crop ls = [CropRecommendation ''Rice'']"
    using crop_recommendation [of ?d1 "[Val 10, Val 2]" "[Val 30, Val 22]" ?m1 "Finite 6"
        "Finite 26" ?s "''Delta Farm''" "''2023-01-01''" "''2023-01-02''" None
        "[''heatwave_days'' \<mapsto> 1]" None] a g
    by (auto simp: df_empty_def column_def)
  from a b c d e show ?thesis by blast
qed

text \<open>
  A report is produced exactly when the summaries of both tables can be written and
  the mean of the historical rain can be computed.
\<close>

lemma report_produced_iff:
  "(\<exists>ls. generate_report pd_mean pd_sum region start_date end_date hist_df fc_df extremes
            flood_data = Inr ls)
   \<longleftrightarrow> summary_ok pd_mean pd_sum hist_df \<and> crop_ok pd_mean hist_df
       \<and> summary_ok pd_mean pd_sum fc_df"
  by (auto simp: generate_report_def history_section_def forecast_section_def crop_section_def
      summary_ok_def crop_ok_def split: sum.splits option.splits if_splits)

lemma flood_section_kinds:
  "filter is_extremes (flood_section fd) = [] \<and> filter is_history (flood_section fd) = []
   \<and> filter is_crop (flood_section fd) = []"
  by (auto simp: flood_section_def risk_message_def split: option.splits sum.splits)

lemma advice_section_kinds:
  "filter is_extremes (advice_section ex) = [] \<and> filter is_history (advice_section ex) = []
   \<and> filter is_crop (advice_section ex) = []"
  by (simp add: advice_section_def)

lemma history_section_kinds:
  assumes "history_section pd_mean pd_sum t = Inr h"
  shows "filter is_extremes h = []
    \<and> ((t = None \<or> (\<exists>df. t = Some df \<and> df_empty df)) \<longrightarrow> h = [])"
  using assms
  by (auto simp: history_section_def split: option.splits if_splits sum.splits)

lemma forecast_section_kinds:
  assumes "forecast_section pd_mean pd_sum t = Inr fc"
  shows "filter is_extremes fc = [] \<and> filter is_history fc = [] \<and> filter is_crop fc = []"
  using assms
  by (auto simp: forecast_section_def split: option.splits if_splits sum.splits)

lemma crop_section_kinds:
  assumes "crop_section pd_mean t = Inr c"
  shows "filter is_extremes c = [] \<and> filter is_history c = []
    \<and> ((t = None \<or> (\<exists>df. t = Some df \<and> df_empty df)) \<longrightarrow> c = [])"
  using assms
  by (auto simp: crop_section_def split: option.splits if_splits sum.splits)

text \<open>
  C6, as amended. A report is produced exactly for the inputs in which each of the
  two tables is absent, empty, or has the columns tmax and rain with the statistics
  that the report reads from them computed by pandas; for every other input the
  function raises and nothing is emitted. Every report that is produced starts with
  the three header lines (title, region, period) and has the extreme-event lines: the
  heading and the three counts, a missing count read as 0. When the historical table
  is absent or empty, the report has no line of the historical summary and no crop
  recommendation.
\<close>

theorem report_without_history:
  "((\<exists>ls. generate_report pd_mean pd_sum region start_date end_date hist_df fc_df extremes
             flood_data = Inr ls)
    \<longleftrightarrow> summary_ok pd_mean pd_sum hist_df \<and> crop_ok pd_mean hist_df
        \<and> summary_ok pd_mean pd_sum fc_df)
   \<and> (\<forall>ls. generate_report pd_mean pd_sum region start_date end_date hist_df fc_df extremes
              flood_data = Inr ls \<longrightarrow>
         take 3 ls = [Title, Region region, Period start_date end_date]
         \<and> filter is_extremes ls =
             [ExtremesHeading,
              HeatwaveDays (get_count extremes ''heatwave_days''),
              DroughtDays (get_count extremes ''drought_days''),
              HeavyRainDays (get_count extremes ''flood_days'')]
         \<and> ((hist_df = None \<or> (\<exists>df. hist_df = Some df \<and> df_empty df)) \<longrightarrow>
              filter is_history ls = [] \<and> filter is_crop ls = []))"
proof -
  have sections: "take 3 ls = [Title, Region region, Period start_date end_date]
         \<and> filter is_extremes ls =
             [ExtremesHeading,
              HeatwaveDays (get_count extremes ''heatwave_days''),
              DroughtDays (get_count extremes ''drought_days''),
              HeavyRainDays (get_count extremes ''flood_days'')]
         \<and> ((hist_df = None \<or> (\<exists>df. hist_df = Some df \<and> df_empty df)) \<longrightarrow>
              filter is_history ls = [] \<and> filter is_crop ls = [])"
    if g: "generate_report pd_mean pd_sum region start_date end_date hist_df fc_df extremes
              flood_data = Inr ls" for ls
  proof -
    from g obtain h fc c where
      h: "history_section pd_mean pd_sum hist_df = Inr h"
      and fc: "forecast_section pd_mean pd_sum fc_df = Inr fc"
      and c: "crop_section pd_mean hist_df = Inr c"
      and ls: "ls = header region start_date end_date @ h @ fc @ extremes_section extremes
                    @ flood_section flood_data @ c @ advice_section extremes"
      by (auto simp: generate_report_def split: sum.splits)
    have t: "take 3 ls = [Title, Region region, Period start_date end_date]"
      by (simp add: ls header_def)
    have e: "filter is_extremes ls =
             [ExtremesHeading,
              HeatwaveDays (get_count extremes ''heatwave_days''),
              DroughtDays (get_count extremes ''drought_days''),
              HeavyRainDays (get_count extremes ''flood_days'')]"
      using history_section_kinds [OF h] forecast_section_kinds [OF fc]
        crop_section_kinds [OF c] flood_section_kinds [of flood_data]
        advice_section_kinds [of extremes]
      by (simp add: ls header_def extremes_section_def)
    have o: "(hist_df = None \<or> (\<exists>df. hist_df = Some df \<and> df_empty df)) \<longrightarrow>
              filter is_history ls = [] \<and> filter is_crop ls = []"
      using history_section_kinds [OF h] forecast_section_kinds [OF fc]
        crop_section_kinds [OF c] flood_section_kinds [of flood_data]
        advice_section_kinds [of extremes]
      by (simp add: ls header_def extremes_section_def)
    from t e o show ?thesis by blast
  qed
  from report_produced_iff [of pd_mean pd_sum region start_date end_date hist_df fc_df
      extremes flood_data] sections
  show ?thesis by blast
qed

text \<open>
  C6 as stated fails: with no historical table and a forecast frame that has no tmax
  column, line 105 raises KeyError and no line of the report, header included, is
  returned.
\<close>

theorem report_missing_column_raises:
  "generate_report (\<lambda>c. Inr Nan) (\<lambda>c. Inr Nan) ''My Farm'' ''2023-01-01'' ''2023-01-03''
     None (Some \<lparr>nrows = 1, cols = [(''rain'', [Val 2])]\<rparr>) Map.empty None
   = Inl KeyError"
  by (simp add: generate_report_def history_section_def forecast_section_def
      df_empty_def column_def)

text \<open>
  An empty historical frame and a forecast of two days.
\<close>

theorem report_without_history_witness:
  "summary_ok (\<lambda>c. Inr (Finite 31)) (\<lambda>c. Inr (Finite 0))
     (Some \<lparr>nrows = 0, cols = [(''tmax'', []), (''rain'', [])]\<rparr>)
   \<and> crop_ok (\<lambda>c. Inr (Finite 31))
     (Some \<lparr>nrows = 0, cols = [(''tmax'', []), (''rain'', [])]\<rparr>)
   \<and> summary_ok (\<lambda>c. Inr (Finite 31)) (\<lambda>c. Inr (Finite 0))
     (Some \<lparr>nrows = 2, cols = [(''tmax'', [Val 30, Val 32]), (''rain'', [Val 0, NaN])]\<rparr>)
   \<and> (\<exists>ls. generate_report (\<lambda>c. Inr (Finite 31)) (\<lambda>c. Inr (Finite 0))
              ''My Farm'' ''2023-01-01'' ''2023-01-03''
              (Some \<lparr>nrows = 0, cols = [(''tmax'', []), (''rain'', [])]\<rparr>)
              (Some \<lparr>nrows = 2, cols = [(''tmax'', [Val 30, Val 32]),
                                        (''rain'', [Val 0, NaN])]\<rparr>)
              [''heatwave_days'' \<mapsto> 4] None = Inr ls
          \<and> take 3 ls = [Title, Region ''My Farm'', Period ''2023-01-01'' ''2023-01-03'']
          \<and> filter is_extremes ls =
               [ExtremesHeading, HeatwaveDays 4, DroughtDays 0, HeavyRainDays 0]
          \<and> filter is_history ls = [] \<and> filter is_crop ls = [])
   \<and> generate_report (\<lambda>c. Inr (Finite 31)) (\<lambda>c. Inr (Finite 0))
        ''My Farm'' ''2023-01-01'' ''2023-01-03''
        (Some \<lparr>nrows = 0, cols = [(''tmax'', []), (''rain'', [])]\<rparr>)
        (Some \<lparr>nrows = 2, cols = [(''tmax'', [Val 30, Val 32]), (''rain'', [Val 0, NaN])]\<rparr>)
        [''heatwave_days'' \<mapsto> 4] None
      = Inr [Title, Region ''My Farm'', Period ''2023-01-01'' ''2023-01-03'',
             ForecastHeading, ForecastAvgTemp (Finite 31), ForecastRain (Finite 0),
             ExtremesHeading, HeatwaveDays 4, DroughtDays 0, HeavyRainDays 0, AdviceHeat]"
proof -
  let ?m = "\<lambda>c. Inr (Finite 31) :: error + double"
  let ?s = "\<lambda>c. Inr (Finite 0) :: error + double"
  let ?h = "Some \<lparr>nrows = 0, cols = [(''tmax'', []), (''rain'', [])]\<rparr>"
  let ?f = "Some \<lparr>nrows = 2, cols = [(''tmax'', [Val 30, Val 32]), (''rain'', [Val 0, NaN])]\<rparr>"
  have a: "summary_ok ?m ?s ?h" "crop_ok ?m ?h"
    by (simp_all add: summary_ok_def crop_ok_def df_empty_def)
  have b: "summary_ok ?m ?s ?f"
    by (simp add: summary_ok_def column_def)
  have g: "generate_report ?m ?s ''My Farm'' ''2023-01-01'' ''2023-01-03'' ?h ?f
        [''heatwave_days'' \<mapsto> 4] None
      = Inr [Title, Region ''My Farm'', Period ''2023-01-01'' ''2023-01-03'',
             ForecastHeading, ForecastAvgTemp (Finite 31), ForecastRain (Finite 0),
             ExtremesHeading, HeatwaveDays 4, DroughtDays 0, HeavyRainDays 0, AdviceHeat]"
    by (simp add: generate_report_def history_section_def forecast_section_def crop_section_def
        df_empty_def column_def header_def extremes_section_def
        get_count_def flood_section_def advice_section_def)
  have e: "df_empty \<lparr>nrows = 0, cols = [(''tmax'', []), (''rain'', [])]\<rparr>"
    by (simp add: df_empty_def)
  have "\<exists>ls. generate_report ?m ?s ''My Farm'' ''2023-01-01'' ''2023-01-03'' ?h ?f
              [''heatwave_days'' \<mapsto> 4] None = Inr ls
          \<and> take 3 ls = [Title, Region ''My Farm'', Period ''2023-01-01'' ''2023-01-03'']
          \<and> filter is_extremes ls =
               [ExtremesHeading, HeatwaveDays 4, DroughtDays 0, HeavyRainDays 0]
          \<and> filter is_history ls = [] \<and> filter is_crop ls = []"
    using report_without_history [of ?m ?s "''My Farm''" "''2023-01-01''" "''2023-01-03''"
        ?h ?f "[''heatwave_days'' \<mapsto> 4]" None] a b e
    by (auto simp: get_count_def)
  with a b g show ?thesis by blast
qed

section \<open>Properties of the frame construction\<close>

lemma those_length: "those xs = Some ys \<Longrightarrow> length ys = length xs"
  by (induction xs arbitrary: ys) (auto split: option.splits)

lemma make_frame_Inr:
  assumes "make_frame td dates tmax tmin rain = Inr df"
  shows "length tmax = length dates \<and> length tmin = length dates \<and> length rain = length dates
    \<and> nrows df = length dates
    \<and> (\<exists>stamps. length stamps = length dates
          \<and> cols df = [(''date'', stamps), (''tmax'', tmax), (''tmin'', tmin), (''rain'', rain)])"
proof -
  from assms have l: "length tmax = length dates \<and> length tmin = length dates
      \<and> length rain = length dates"
    by (auto simp: make_frame_def split: if_splits)
  with assms obtain stamps where s: "those (map td dates) = Some stamps"
    and df: "df = \<lparr>nrows = length dates,
                   cols = [(''date'', map Val stamps), (''tmax'', tmax),
                           (''tmin'', tmin), (''rain'', rain)]\<rparr>"
    by (auto simp: make_frame_def split: option.splits)
  from those_length [OF s] have "length (map Val stamps) = length dates" by simp
  with l df show ?thesis by simp
qed

lemma get_field_Inr:
  "get_field field kvs = Inr a \<longleftrightarrow>
   (\<exists>d. map_of kvs ''daily'' = Some (Arrays d) \<and> field d = Some a)"
  by (auto simp: get_field_def get_daily_def split: option.splits entry.splits)

text \<open>
  C4, as amended. For a payload that is absent or an empty dict, the frame is \<open>None\<close>
  and nothing is raised. For a payload that is not empty and lacks the key
  \<^verbatim>\<open>daily\<close>, or whose \<^verbatim>\<open>daily\<close> object lacks one of the four arrays, the subscript
  raises KeyError and no frame is produced.
\<close>

theorem weather_df_missing_key:
  "(weather_data = None \<or> weather_data = Some [] \<longrightarrow>
      weather_df to_datetime weather_data = Inr None)
   \<and> (kvs \<noteq> []
       \<and> (map_of kvs ''daily'' = None
           \<or> (\<exists>d. map_of kvs ''daily'' = Some (Arrays d)
                  \<and> (time d = None \<or> temperature_2m_max d = None
                      \<or> temperature_2m_min d = None \<or> precipitation_sum d = None))) \<longrightarrow>
      weather_df to_datetime (Some kvs) = Inl KeyError)"
  by (auto simp: weather_df_def get_field_def get_daily_def split: option.splits)

text \<open>
  No payload, the empty dict, a payload without \<^verbatim>\<open>daily\<close>, and one without
  \<^verbatim>\<open>precipitation_sum\<close>.
\<close>

theorem weather_df_missing_key_witness:
  "weather_df (\<lambda>s. Some 0) None = Inr None
   \<and> weather_df (\<lambda>s. Some 0) (Some []) = Inr None
   \<and> weather_df (\<lambda>s. Some 0) (Some [(''latitude'', Leaf)]) = Inl KeyError
   \<and> weather_df (\<lambda>s. Some 0)
        (Some [(''daily'', Arrays \<lparr>time = Some [''2023-01-01''], temperature_2m_max = Some [Val 30],
                                   temperature_2m_min = Some [Val 20], precipitation_sum = None\<rparr>)])
      = Inl KeyError"
  using weather_df_missing_key [of None "\<lambda>s. Some 0" "[(''latitude'', Leaf)]"]
    weather_df_missing_key [of "Some []" "\<lambda>s. Some 0"
      "[(''daily'', Arrays \<lparr>time = Some [''2023-01-01''], temperature_2m_max = Some [Val 30],
                            temperature_2m_min = Some [Val 20], precipitation_sum = None\<rparr>)]"]
  by simp

text \<open>
  C4 as stated fails: a payload with a key other than \<^verbatim>\<open>daily\<close> is present and lacks
  \<^verbatim>\<open>daily\<close>; line 186 raises KeyError instead of leaving the frame \<open>None\<close>.
\<close>

theorem weather_df_missing_daily_raises:
  "weather_df (\<lambda>s. Some 0) (Some [(''latitude'', Leaf)]) = Inl KeyError"
  by (simp add: weather_df_def get_field_def get_daily_def)

text \<open>
  C7, as amended. For every payload whose four arrays do not all have the length of
  the date array, the construction of the frame raises ValueError: the payload is
  refused by the exception, the arrays are not zipped, and no frame (nor \<open>None\<close>) is
  produced. Every frame that is produced has the four columns date, tmax, tmin and
  rain, each as long as the date array of the payload, which is the number of rows.
\<close>

theorem weather_df_lengths:
  "(map_of kvs ''daily'' = Some (Arrays d) \<and> time d = Some dates
      \<and> temperature_2m_max d = Some tmax \<and> temperature_2m_min d = Some tmin
      \<and> precipitation_sum d = Some rain
      \<and> \<not> (length tmax = length dates \<and> length tmin = length dates
             \<and> length rain = length dates) \<longrightarrow>
      weather_df to_datetime (Some kvs) = Inl ValueError)
   \<and> (weather_df to_datetime weather_data = Inr (Some df) \<longrightarrow>
        wf_frame df \<and>
        (\<exists>kvs d dates stamps tmax tmin rain.
            weather_data = Some kvs \<and> map_of kvs ''daily'' = Some (Arrays d)
            \<and> time d = Some dates \<and> temperature_2m_max d = Some tmax
            \<and> temperature_2m_min d = Some tmin \<and> precipitation_sum d = Some rain
            \<and> cols df = [(''date'', stamps), (''tmax'', tmax), (''tmin'', tmin), (''rain'', rain)]
            \<and> nrows df = length dates \<and> length stamps = length dates
            \<and> length tmax = length dates \<and> length tmin = length dates
            \<and> length rain = length dates))"
proof -
  have mismatch: "weather_df to_datetime (Some kvs) = Inl ValueError"
    if a: "map_of kvs ''daily'' = Some (Arrays d) \<and> time d = Some dates
      \<and> temperature_2m_max d = Some tmax \<and> temperature_2m_min d = Some tmin
      \<and> precipitation_sum d = Some rain
      \<and> \<not> (length tmax = length dates \<and> length tmin = length dates
             \<and> length rain = length dates)"
  proof -
    from a have "kvs \<noteq> []" by auto
    moreover from a have "make_frame to_datetime dates tmax tmin rain = Inl ValueError"
      by (auto simp: make_frame_def)
    ultimately show ?thesis
      using a by (simp add: weather_df_def get_field_def get_daily_def)
  qed
  have produced: "wf_frame df \<and>
        (\<exists>kvs d dates stamps tmax tmin rain.
            weather_data = Some kvs \<and> map_of kvs ''daily'' = Some (Arrays d)
            \<and> time d = Some dates \<and> temperature_2m_max d = Some tmax
            \<and> temperature_2m_min d = Some tmin \<and> precipitation_sum d = Some rain
            \<and> cols df = [(''date'', stamps), (''tmax'', tmax), (''tmin'', tmin), (''rain'', rain)]
            \<and> nrows df = length dates \<and> length stamps = length dates
            \<and> length tmax = length dates \<and> length tmin = length dates
            \<and> length rain = length dates)"
    if r: "weather_df to_datetime weather_data = Inr (Some df)"
  proof -
    from r obtain kvs where k: "weather_data = Some kvs" "kvs \<noteq> []"
      by (auto simp: weather_df_def split: option.splits if_splits)
    with r obtain dates tmax tmin rain where
      f: "get_field time kvs = Inr dates" "get_field temperature_2m_max kvs = Inr tmax"
         "get_field temperature_2m_min kvs = Inr tmin"
         "get_field precipitation_sum kvs = Inr rain"
      and m: "make_frame to_datetime dates tmax tmin rain = Inr df"
      by (auto simp: weather_df_def split: sum.splits)
    from f obtain d where d: "map_of kvs ''daily'' = Some (Arrays d)" "time d = Some dates"
      "temperature_2m_max d = Some tmax" "temperature_2m_min d = Some tmin"
      "precipitation_sum d = Some rain"
      by (auto simp: get_field_Inr)
    from make_frame_Inr [OF m] have "wf_frame df"
      by (auto simp: wf_frame_def)
    with make_frame_Inr [OF m] k(1) d show ?thesis
      by blast
  qed
  from mismatch produced show ?thesis by blast
qed

text \<open>
  C7 as stated fails: with two dates and one maximum temperature the result is the
  exception ValueError, not the empty frame \<open>None\<close>.
\<close>

theorem weather_df_mismatch_raises:
  "weather_df (\<lambda>s. Some 0)
     (Some [(''daily'', Arrays \<lparr>time = Some [''2023-01-01'', ''2023-01-02''],
                                temperature_2m_max = Some [Val 30],
                                temperature_2m_min = Some [Val 20, Val 21],
                                precipitation_sum = Some [Val 0, Val 1]\<rparr>)])
   = Inl ValueError"
  by (simp add: weather_df_def get_field_def get_daily_def make_frame_def)

text \<open>A payload with arrays of lengths 2, 1, 2, 2 and one with four arrays of length 2.\<close>

theorem weather_df_lengths_witness:
  "weather_df (\<lambda>s. Some 0)
     (Some [(''daily'', Arrays \<lparr>time = Some [''2023-01-01'', ''2023-01-02''],
                                temperature_2m_max = Some [Val 30],
                                temperature_2m_min = Some [Val 20, Val 21],
                                precipitation_sum = Some [Val 0, Val 1]\<rparr>)])
   = Inl ValueError
   \<and> weather_df (\<lambda>s. Some 0)
     (Some [(''daily'', Arrays \<lparr>time = Some [''2023-01-01'', ''2023-01-02''],
                                temperature_2m_max = Some [Val 30, NaN],
                                temperature_2m_min = Some [Val 20, Val 21],
                                precipitation_sum = Some [Val 0, Val 1]\<rparr>)])
   = Inr (Some \<lparr>nrows = 2, cols = [(''date'', [Val 0, Val 0]), (''tmax'', [Val 30, NaN]),
                                    (''tmin'', [Val 20, Val 21]), (''rain'', [Val 0, Val 1])]\<rparr>)
   \<and> (\<exists>stamps. cols \<lparr>nrows = 2, cols = [(''date'', [Val 0, Val 0]), (''tmax'', [Val 30, NaN]),
                                    (''tmin'', [Val 20, Val 21]), (''rain'', [Val 0, Val 1])]\<rparr>
        = [(''date'', stamps), (''tmax'', [Val 30, NaN]),
                                    (''tmin'', [Val 20, Val 21]), (''rain'', [Val 0, Val 1])] \<and> length stamps = 2)"
proof -
  have a: "weather_df (\<lambda>s. Some 0)
     (Some [(''daily'', Arrays \<lparr>time = Some [''2023-01-01'', ''2023-01-02''],
                                temperature_2m_max = Some [Val 30],
                                temperature_2m_min = Some [Val 20, Val 21],
                                precipitation_sum = Some [Val 0, Val 1]\<rparr>)])
   = Inl ValueError"
    using weather_df_lengths [of "[(''daily'', Arrays \<lparr>time = Some [''2023-01-01'', ''2023-01-02''],
                                temperature_2m_max = Some [Val 30],
                                temperature_2m_min = Some [Val 20, Val 21],
                                precipitation_sum = Some [Val 0, Val 1]\<rparr>)]"
        "\<lparr>time = Some [''2023-01-01'', ''2023-01-02''],
                                temperature_2m_max = Some [Val 30],
                                temperature_2m_min = Some [Val 20, Val 21],
                                precipitation_sum = Some [Val 0, Val 1]\<rparr>"
        "[''2023-01-01'', ''2023-01-02'']" "[Val 30]" "[Val 20, Val 21]" "[Val 0, Val 1]" "\<lambda>s. Some 0"]
    by simp
  have b: "weather_df (\<lambda>s. Some 0)
     (Some [(''daily'', Arrays \<lparr>time = Some [''2023-01-01'', ''2023-01-02''],
                                temperature_2m_max = Some [Val 30, NaN],
                                temperature_2m_min = Some [Val 20, Val 21],
                                precipitation_sum = Some [Val 0, Val 1]\<rparr>)])
   = Inr (Some \<lparr>nrows = 2, cols = [(''date'', [Val 0, Val 0]), (''tmax'', [Val 30, NaN]),
                                    (''tmin'', [Val 20, Val 21]), (''rain'', [Val 0, Val 1])]\<rparr>)"
    by (simp add: weather_df_def get_field_def get_daily_def make_frame_def)
  from weather_df_lengths [THEN conjunct2, rule_format, OF b] a b
  show ?thesis by auto
qed

section \<open>Properties of the flood request\<close>

text \<open>
  C8. On the status 404 \<open>fetch_flood\<close> returns the dict whose \<^verbatim>\<open>error\<close> is
  \<^verbatim>\<open>No flood model available for this region\<close>. Every other failure (an exception of
  the request, another status from 400 to 599, a body that is not JSON) returns a dict
  whose \<^verbatim>\<open>error\<close> starts with \<^verbatim>\<open>Flood API failed: \<close>, which is a different value.
  \<open>fetch_flood\<close> is total: every outcome of the request is turned into a value.
\<close>

theorem fetch_flood_no_model:
  assumes "status_code resp = 404"
  shows "fetch_flood (Returns resp) =
           JObj [(''error'', JStr ''No flood model available for this region'')]
    \<and> (\<forall>r. other_failure r \<longrightarrow>
          (\<exists>msg. fetch_flood r = JObj [(''error'', JStr (''Flood API failed: '' @ msg))])
          \<and> fetch_flood r \<noteq> fetch_flood (Returns resp))"
proof -
  have n: "fetch_flood (Returns resp) =
           JObj [(''error'', JStr ''No flood model available for this region'')]"
    using assms by (simp add: fetch_flood_def error_dict_def)
  have "\<exists>msg. fetch_flood r = JObj [(''error'', JStr (''Flood API failed: '' @ msg))]"
    if "other_failure r" for r
  proof (cases r)
    case (Raises e)
    then show ?thesis by (simp add: fetch_flood_def error_dict_def)
  next
    case (Returns resp')
    with that show ?thesis
      by (cases "json_body resp'") (auto simp: fetch_flood_def error_dict_def)
  qed
  then show ?thesis
    unfolding n by fastforce
qed

text \<open>A 404, against a timeout, a status 500, and a status 200 with a body that is not JSON.\<close>

theorem fetch_flood_no_model_witness:
  "fetch_flood (Returns \<lparr>status_code = 404, http_error = ''404 Client Error: Not Found'',
                          json_body = Inr (JObj [(''error'', JBool True)])\<rparr>) =
     JObj [(''error'', JStr ''No flood model available for this region'')]
   \<and> fetch_flood (Raises ''Read timed out.'') \<noteq>
       JObj [(''error'', JStr ''No flood model available for this region'')]
   \<and> fetch_flood (Returns \<lparr>status_code = 500, http_error = ''500 Server Error'',
                              json_body = Inl ''Expecting value''\<rparr>) \<noteq>
       JObj [(''error'', JStr ''No flood model available for this region'')]
   \<and> fetch_flood (Returns \<lparr>status_code = 200, http_error = [],
                              json_body = Inl ''Expecting value''\<rparr>) \<noteq>
       JObj [(''error'', JStr ''No flood model available for this region'')]"
proof -
  let ?resp = "\<lparr>status_code = 404, http_error = ''404 Client Error: Not Found'',
                 json_body = Inr (JObj [(''error'', JBool True)])\<rparr>"
  have s: "status_code ?resp = 404" by simp
  from fetch_flood_no_model [OF s] have
    a: "fetch_flood (Returns ?resp) =
          JObj [(''error'', JStr ''No flood model available for this region'')]"
    and b: "\<And>r. other_failure r \<Longrightarrow> fetch_flood r \<noteq> fetch_flood (Returns ?resp)"
    by blast+
  have "other_failure (Raises ''Read timed out.'')"
    "other_failure (Returns \<lparr>status_code = 500, http_error = ''500 Server Error'',
                              json_body = Inl ''Expecting value''\<rparr>)"
    "other_failure (Returns \<lparr>status_code = 200, http_error = [],
                              json_body = Inl ''Expecting value''\<rparr>)"
    by simp_all
  from this [THEN b] a show ?thesis by simp
qed

end
